theory Spec2Isabelle
  imports Complex_Main
begin

section \<open>Schema\<close>

text \<open>
  The tables of the migration (\<^verbatim>\<open>CREATE TABLE public.profiles\<close> and following). A UUID
  and a \<^verbatim>\<open>TIMESTAMP WITH TIME ZONE\<close> are natural numbers; a table is the list of its rows.
  Columns declared \<^verbatim>\<open>NOT NULL\<close> have the plain type, nullable ones an option type.
\<close>

type_synonym uuid = nat
type_synonym timestamptz = nat

datatype app_role = system_admin | normal_user | store_owner

text \<open>
  A JSON value of \<^verbatim>\<open>raw_user_meta_data\<close> as the operator \<^verbatim>\<open>->>\<close> sees it: JSON null, or a
  value with its text form.
\<close>

datatype jsonb_value = JsonNull | JsonText string

record auth_user =
  au_id :: uuid
  au_email :: "string option"
  raw_user_meta_data :: "(string \<times> jsonb_value) list option"

text \<open>The two timestamp columns that profiles, stores and ratings share.\<close>

record timestamps =
  created_at :: timestamptz
  updated_at :: timestamptz

record profile = timestamps +
  p_id :: uuid
  p_name :: string
  p_email :: string
  p_address :: string

record user_role =
  ur_id :: uuid
  ur_user_id :: uuid
  ur_role :: app_role
  ur_created_at :: timestamptz

record store = timestamps +
  s_id :: uuid
  s_owner_id :: uuid
  s_name :: string
  s_email :: string
  s_address :: string

record rating_row = timestamps +
  r_id :: uuid
  r_user_id :: uuid
  r_store_id :: uuid
  rating :: int

record db =
  auth_users :: "auth_user list"
  profiles :: "profile list"
  user_roles :: "user_role list"
  stores :: "store list"
  ratings :: "rating_row list"

section \<open>The view \<^verbatim>\<open>store_ratings\<close>\<close>

text \<open>
  \<^verbatim>\<open>FROM public.stores s LEFT JOIN public.ratings r ON s.id = r.store_id\<close>: a store with
  no matching rating yields one row whose rating side is NULL.
\<close>

definition join_rows :: "rating_row list \<Rightarrow> store \<Rightarrow> (store \<times> rating_row option) list" where
  "join_rows rs s =
     (let ms = filter (\<lambda>r. s_id s = r_store_id r) rs
      in if ms = [] then [(s, None)] else map (\<lambda>r. (s, Some r)) ms)"

definition left_join :: "store list \<Rightarrow> rating_row list \<Rightarrow> (store \<times> rating_row option) list" where
  "left_join ss rs = concat (map (join_rows rs) ss)"

text \<open>\<^verbatim>\<open>GROUP BY s.id, s.name, s.email, s.address, s.owner_id\<close>\<close>

type_synonym group_key = "uuid \<times> string \<times> string \<times> string \<times> uuid"

definition group_key :: "store \<Rightarrow> group_key" where
  "group_key s = (s_id s, s_name s, s_email s, s_address s, s_owner_id s)"

text \<open>
  PostgreSQL's \<^verbatim>\<open>numeric\<close>. \<^verbatim>\<open>AVG\<close> over an integer column keeps the sum and the count as
  integers and ends with \<^verbatim>\<open>numeric_div(sum, count)\<close>, which rounds the quotient to the number
  of decimals \<^verbatim>\<open>select_div_scale\<close> picks: at least 16 significant digits, estimated from
  the weights (the positions of the leading base-10000 digits) and the leading base-10000
  digits of the two operands. An integer has display scale 0, and the scale is at most
  1000. The rounding is on the magnitude, halves upwards. A \<^verbatim>\<open>numeric\<close> is modelled by its
  value, a rational; \<^verbatim>\<open>AVG\<close> never divides by zero.
\<close>

function numeric_weight :: "nat \<Rightarrow> nat" where
  "numeric_weight n = (if n < 10000 then 0 else Suc (numeric_weight (n div 10000)))"
  by pat_completeness auto
termination
  by (relation "measure id") auto

function first_digit :: "nat \<Rightarrow> nat" where
  "first_digit n = (if n < 10000 then n else first_digit (n div 10000))"
  by pat_completeness auto
termination
  by (relation "measure id") auto

declare numeric_weight.simps [simp del] first_digit.simps [simp del]

definition select_div_scale :: "int \<Rightarrow> int \<Rightarrow> nat" where
  "select_div_scale var1 var2 =
     (let qweight = int (numeric_weight (nat \<bar>var1\<bar>)) - int (numeric_weight (nat \<bar>var2\<bar>)) -
                    (if first_digit (nat \<bar>var1\<bar>) \<le> first_digit (nat \<bar>var2\<bar>) then 1 else 0);
          rscale = 16 - qweight * 4
      in nat (min (max rscale 0) 1000))"

definition numeric_div :: "int \<Rightarrow> int \<Rightarrow> rat" where
  "numeric_div var1 var2 =
     (let rscale = select_div_scale var1 var2;
          q = (2 * \<bar>var1\<bar> * 10 ^ rscale + \<bar>var2\<bar>) div (2 * \<bar>var2\<bar>)
      in of_int (sgn var1 * sgn var2 * q) / of_int (10 ^ rscale))"

text \<open>
  The aggregates skip NULL inputs. \<^verbatim>\<open>AVG\<close> over no input is NULL; over integers it is the
  \<^verbatim>\<open>numeric\<close> quotient of their sum and their number.
\<close>

definition sql_avg :: "int option list \<Rightarrow> rat option" where
  "sql_avg vs =
     (let xs = concat (map (\<lambda>v. case v of None \<Rightarrow> [] | Some x \<Rightarrow> [x]) vs)
      in if xs = [] then None else Some (numeric_div (sum_list xs) (int (length xs))))"

definition sql_count :: "'a option list \<Rightarrow> nat" where
  "sql_count vs = length (filter (\<lambda>v. v \<noteq> None) vs)"

definition coalesce :: "'a option \<Rightarrow> 'a \<Rightarrow> 'a" where
  "coalesce v d = (case v of None \<Rightarrow> d | Some x \<Rightarrow> x)"

record store_ratings_row =
  sr_id :: uuid
  sr_name :: string
  sr_email :: string
  sr_address :: string
  sr_owner_id :: uuid
  average_rating :: rat
  total_ratings :: nat

definition store_ratings_group ::
  "(store \<times> rating_row option) list \<Rightarrow> group_key \<Rightarrow> store_ratings_row" where
  "store_ratings_group j k =
     (let g = filter (\<lambda>row. group_key (fst row) = k) j
      in case k of (i, n, e, a, ow) \<Rightarrow>
           \<lparr> sr_id = i, sr_name = n, sr_email = e, sr_address = a, sr_owner_id = ow,
             average_rating = coalesce (sql_avg (map (\<lambda>row. map_option rating (snd row)) g)) 0,
             total_ratings = sql_count (map (\<lambda>row. map_option r_id (snd row)) g) \<rparr>)"

definition store_ratings :: "db \<Rightarrow> store_ratings_row list" where
  "store_ratings d =
     (let j = left_join (stores d) (ratings d)
      in map (store_ratings_group j) (remdups (map (\<lambda>row. group_key (fst row)) j)))"

text \<open>The primary key of \<^verbatim>\<open>stores\<close>.\<close>

definition stores_pkey :: "store list \<Rightarrow> bool" where
  "stores_pkey ss = distinct (map s_id ss)"

text \<open>The ratings of one store, in table order.\<close>

definition ratings_of :: "db \<Rightarrow> uuid \<Rightarrow> int list" where
  "ratings_of d i = map rating (filter (\<lambda>r. i = r_store_id r) (ratings d))"

section \<open>Errors, callers and authorization functions\<close>

text \<open>
  The errors a statement can end with, each with the name of the constraint, column or
  table concerned. A statement returns \<open>Inl\<close> of the error or \<open>Inr\<close> of the new database;
  a failed statement changes nothing, which \<open>exec\<close> makes explicit.
\<close>

datatype pg_error =
    not_null_violation string
  | check_violation string
  | unique_violation string
  | foreign_key_violation string
  | invalid_text_representation string
  | insufficient_privilege string

definition exec :: "(db \<Rightarrow> pg_error + db) \<Rightarrow> db \<Rightarrow> pg_error option \<times> db" where
  "exec stmt d = (case stmt d of Inl e \<Rightarrow> (Some e, d) | Inr d' \<Rightarrow> (None, d'))"

text \<open>
  Who issues a statement: the elevated service key (row-level security does not apply), a
  signed-in identity, or nobody. \<^verbatim>\<open>auth.uid()\<close> is NULL unless someone is signed in.
\<close>

datatype caller = service_role | authenticated uuid | anon

fun auth_uid :: "caller \<Rightarrow> uuid option" where
  "auth_uid (authenticated u) = Some u"
| "auth_uid service_role = None"
| "auth_uid anon = None"

text \<open>
  \<^verbatim>\<open>has_role(_user_id, _role)\<close>: \<^verbatim>\<open>SELECT EXISTS (SELECT 1 FROM user_roles WHERE user_id = _user_id
  AND role = _role)\<close>. A NULL \<^verbatim>\<open>_user_id\<close> matches no row.
\<close>

definition has_role :: "db \<Rightarrow> uuid option \<Rightarrow> app_role \<Rightarrow> bool" where
  "has_role d user_id role =
     list_ex (\<lambda>r. Some (ur_user_id r) = user_id \<and> ur_role r = role) (user_roles d)"

section \<open>Row-level policies\<close>

text \<open>
  Policies for one operation are combined with OR. The policy of \<^verbatim>\<open>FOR ALL\<close> counts for
  every operation. An \<^verbatim>\<open>UPDATE\<close> policy without \<^verbatim>\<open>WITH CHECK\<close> applies its \<^verbatim>\<open>USING\<close>
  expression to the new row as well.
\<close>

definition profiles_select_policy :: "db \<Rightarrow> caller \<Rightarrow> profile \<Rightarrow> bool" where
  "profiles_select_policy d c row =
     (c = service_role \<or> auth_uid c = Some (p_id row) \<or> has_role d (auth_uid c) system_admin)"

definition profiles_update_policy :: "db \<Rightarrow> caller \<Rightarrow> profile \<Rightarrow> bool" where
  "profiles_update_policy d c row =
     (c = service_role \<or> auth_uid c = Some (p_id row) \<or> has_role d (auth_uid c) system_admin)"

definition user_roles_all_policy :: "db \<Rightarrow> caller \<Rightarrow> user_role \<Rightarrow> bool" where
  "user_roles_all_policy d c row = (c = service_role \<or> has_role d (auth_uid c) system_admin)"

definition stores_all_policy :: "db \<Rightarrow> caller \<Rightarrow> store \<Rightarrow> bool" where
  "stores_all_policy d c row = (c = service_role \<or> has_role d (auth_uid c) system_admin)"

definition stores_update_policy :: "db \<Rightarrow> caller \<Rightarrow> store \<Rightarrow> bool" where
  "stores_update_policy d c row = (auth_uid c = Some (s_owner_id row) \<or> stores_all_policy d c row)"

definition ratings_insert_policy :: "caller \<Rightarrow> rating_row \<Rightarrow> bool" where
  "ratings_insert_policy c row = (c = service_role \<or> auth_uid c = Some (r_user_id row))"

definition ratings_update_policy :: "caller \<Rightarrow> rating_row \<Rightarrow> bool" where
  "ratings_update_policy c row = (c = service_role \<or> auth_uid c = Some (r_user_id row))"

definition ratings_delete_policy :: "caller \<Rightarrow> rating_row \<Rightarrow> bool" where
  "ratings_delete_policy c row = (c = service_role \<or> auth_uid c = Some (r_user_id row))"

section \<open>Constraints\<close>

text \<open>
  Each table's constraints, applied to the rows a statement writes (\<open>news\<close>) and to the
  content the table would then have (\<open>rows\<close>), in the order in which a violation is
  reported: \<^verbatim>\<open>CHECK\<close> on the written rows, then the unique indexes (primary key first),
  then the foreign keys of the written rows. Uniqueness is judged on the statement's
  result.
\<close>

definition ratings_rating_check :: "rating_row \<Rightarrow> bool" where
  "ratings_rating_check r = (rating r \<ge> 1 \<and> rating r \<le> 5)"

definition ratings_user_id_store_id_key :: "rating_row list \<Rightarrow> bool" where
  "ratings_user_id_store_id_key rows = distinct (map (\<lambda>r. (r_user_id r, r_store_id r)) rows)"

definition ratings_violation :: "db \<Rightarrow> rating_row list \<Rightarrow> rating_row list \<Rightarrow> pg_error option" where
  "ratings_violation d news rows =
     (if \<not> list_all ratings_rating_check news then Some (check_violation ''ratings_rating_check'')
      else if \<not> distinct (map r_id rows) then Some (unique_violation ''ratings_pkey'')
      else if \<not> ratings_user_id_store_id_key rows
        then Some (unique_violation ''ratings_user_id_store_id_key'')
      else if \<not> list_all (\<lambda>r. r_user_id r \<in> set (map au_id (auth_users d))) news
        then Some (foreign_key_violation ''ratings_user_id_fkey'')
      else if \<not> list_all (\<lambda>r. r_store_id r \<in> set (map s_id (stores d))) news
        then Some (foreign_key_violation ''ratings_store_id_fkey'')
      else None)"

definition profiles_violation :: "db \<Rightarrow> profile list \<Rightarrow> profile list \<Rightarrow> pg_error option" where
  "profiles_violation d news rows =
     (if \<not> distinct (map p_id rows) then Some (unique_violation ''profiles_pkey'')
      else if \<not> list_all (\<lambda>p. p_id p \<in> set (map au_id (auth_users d))) news
        then Some (foreign_key_violation ''profiles_id_fkey'')
      else None)"

definition user_roles_user_id_role_key :: "user_role list \<Rightarrow> bool" where
  "user_roles_user_id_role_key rows = distinct (map (\<lambda>r. (ur_user_id r, ur_role r)) rows)"

definition user_roles_violation :: "db \<Rightarrow> user_role list \<Rightarrow> user_role list \<Rightarrow> pg_error option" where
  "user_roles_violation d news rows =
     (if \<not> distinct (map ur_id rows) then Some (unique_violation ''user_roles_pkey'')
      else if \<not> user_roles_user_id_role_key rows
        then Some (unique_violation ''user_roles_user_id_role_key'')
      else if \<not> list_all (\<lambda>r. ur_user_id r \<in> set (map au_id (auth_users d))) news
        then Some (foreign_key_violation ''user_roles_user_id_fkey'')
      else None)"

definition stores_violation :: "db \<Rightarrow> store list \<Rightarrow> store list \<Rightarrow> pg_error option" where
  "stores_violation d news rows =
     (if \<not> stores_pkey rows then Some (unique_violation ''stores_pkey'')
      else if \<not> list_all (\<lambda>s. s_owner_id s \<in> set (map au_id (auth_users d))) news
        then Some (foreign_key_violation ''stores_owner_id_fkey'')
      else None)"

section \<open>Statements\<close>

text \<open>
  \<^verbatim>\<open>update_updated_at_column()\<close>, the \<^verbatim>\<open>BEFORE UPDATE ... FOR EACH ROW\<close> trigger of profiles,
  stores and ratings: \<^verbatim>\<open>NEW.updated_at = now(); RETURN NEW;\<close>
\<close>

definition update_updated_at_column ::
  "timestamptz \<Rightarrow> 'a timestamps_scheme \<Rightarrow> 'a timestamps_scheme" where
  "update_updated_at_column t NEW = NEW\<lparr>updated_at := t\<rparr>"

text \<open>
  An \<^verbatim>\<open>UPDATE\<close> of a table with that trigger, at time \<open>t\<close>. \<open>target\<close> selects the rows
  (the statement's \<^verbatim>\<open>WHERE\<close> and the policy), \<open>assign\<close> is the statement's \<^verbatim>\<open>SET\<close> list,
  which may assign any column. \<open>written_rows\<close> are the new row versions, \<open>update_rows\<close>
  is the table afterwards.
\<close>

definition written_rows ::
  "timestamptz \<Rightarrow> ('a timestamps_scheme \<Rightarrow> bool) \<Rightarrow>
   ('a timestamps_scheme \<Rightarrow> 'a timestamps_scheme) \<Rightarrow>
   'a timestamps_scheme list \<Rightarrow> 'a timestamps_scheme list" where
  "written_rows t target assign rows =
     map (\<lambda>OLD. update_updated_at_column t (assign OLD)) (filter target rows)"

definition update_rows ::
  "timestamptz \<Rightarrow> ('a timestamps_scheme \<Rightarrow> bool) \<Rightarrow>
   ('a timestamps_scheme \<Rightarrow> 'a timestamps_scheme) \<Rightarrow>
   'a timestamps_scheme list \<Rightarrow> 'a timestamps_scheme list" where
  "update_rows t target assign rows =
     map (\<lambda>OLD. if target OLD then update_updated_at_column t (assign OLD) else OLD) rows"

subsection \<open>ratings\<close>

text \<open>
  \<^verbatim>\<open>INSERT INTO ratings\<close> of the row \<open>r\<close>, every column given: by the caller, or by the
  column's \<^verbatim>\<open>DEFAULT\<close>. No trigger fires on insert.
\<close>

definition insert_ratings :: "caller \<Rightarrow> rating_row \<Rightarrow> db \<Rightarrow> pg_error + db" where
  "insert_ratings c r d =
     (if \<not> ratings_insert_policy c r then Inl (insufficient_privilege ''ratings'')
      else case ratings_violation d [r] (ratings d @ [r]) of
             Some e \<Rightarrow> Inl e
           | None \<Rightarrow> Inr (d\<lparr>ratings := ratings d @ [r]\<rparr>))"

definition update_ratings ::
  "timestamptz \<Rightarrow> caller \<Rightarrow> (rating_row \<Rightarrow> bool) \<Rightarrow> (rating_row \<Rightarrow> rating_row) \<Rightarrow> db \<Rightarrow>
   pg_error + db" where
  "update_ratings t c cond assign d =
     (let target = (\<lambda>r. cond r \<and> ratings_update_policy c r);
          news = written_rows t target assign (ratings d);
          rows = update_rows t target assign (ratings d)
      in if \<not> list_all (ratings_update_policy c) news then Inl (insufficient_privilege ''ratings'')
         else case ratings_violation d news rows of
                Some e \<Rightarrow> Inl e
              | None \<Rightarrow> Inr (d\<lparr>ratings := rows\<rparr>))"

definition delete_ratings :: "caller \<Rightarrow> (rating_row \<Rightarrow> bool) \<Rightarrow> db \<Rightarrow> pg_error + db" where
  "delete_ratings c cond d =
     Inr (d\<lparr>ratings := filter (\<lambda>r. \<not> (cond r \<and> ratings_delete_policy c r)) (ratings d)\<rparr>)"


text \<open>Any sequence of statements on the table, each run to its end or rolled back.\<close>

datatype ratings_stmt =
    Insert caller rating_row
  | Update timestamptz caller "rating_row \<Rightarrow> bool" "rating_row \<Rightarrow> rating_row"
  | Delete caller "rating_row \<Rightarrow> bool"

fun run_stmt :: "ratings_stmt \<Rightarrow> db \<Rightarrow> pg_error + db" where
  "run_stmt (Insert c r) = insert_ratings c r"
| "run_stmt (Update t c cond assign) = update_ratings t c cond assign"
| "run_stmt (Delete c cond) = delete_ratings c cond"

fun run :: "ratings_stmt list \<Rightarrow> db \<Rightarrow> db" where
  "run [] d = d"
| "run (s # ss) d = run ss (snd (exec (run_stmt s) d))"

subsection \<open>profiles\<close>

definition select_profiles :: "caller \<Rightarrow> (profile \<Rightarrow> bool) \<Rightarrow> db \<Rightarrow> profile list" where
  "select_profiles c cond d = filter cond (filter (profiles_select_policy d c) (profiles d))"

text \<open>The insert that \<open>handle_new_user\<close> makes; as \<^verbatim>\<open>SECURITY DEFINER\<close> it passes no policy.\<close>

definition insert_profiles :: "profile \<Rightarrow> db \<Rightarrow> pg_error + db" where
  "insert_profiles p d =
     (case profiles_violation d [p] (profiles d @ [p]) of
        Some e \<Rightarrow> Inl e
      | None \<Rightarrow> Inr (d\<lparr>profiles := profiles d @ [p]\<rparr>))"

definition update_profiles ::
  "timestamptz \<Rightarrow> caller \<Rightarrow> (profile \<Rightarrow> bool) \<Rightarrow> (profile \<Rightarrow> profile) \<Rightarrow> db \<Rightarrow>
   pg_error + db" where
  "update_profiles t c cond assign d =
     (let target = (\<lambda>p. cond p \<and> profiles_update_policy d c p);
          news = written_rows t target assign (profiles d);
          rows = update_rows t target assign (profiles d)
      in if \<not> list_all (profiles_update_policy d c) news
           then Inl (insufficient_privilege ''profiles'')
         else case profiles_violation d news rows of
                Some e \<Rightarrow> Inl e
              | None \<Rightarrow> Inr (d\<lparr>profiles := rows\<rparr>))"

subsection \<open>user\_roles\<close>

definition insert_user_roles :: "user_role \<Rightarrow> db \<Rightarrow> pg_error + db" where
  "insert_user_roles r d =
     (case user_roles_violation d [r] (user_roles d @ [r]) of
        Some e \<Rightarrow> Inl e
      | None \<Rightarrow> Inr (d\<lparr>user_roles := user_roles d @ [r]\<rparr>))"

text \<open>\<^verbatim>\<open>UPDATE user_roles SET ... WHERE cond\<close>; the table has no trigger.\<close>

definition update_user_roles ::
  "caller \<Rightarrow> (user_role \<Rightarrow> bool) \<Rightarrow> (user_role \<Rightarrow> user_role) \<Rightarrow> db \<Rightarrow> pg_error + db" where
  "update_user_roles c cond assign d =
     (let target = (\<lambda>r. cond r \<and> user_roles_all_policy d c r);
          news = map assign (filter target (user_roles d));
          rows = map (\<lambda>OLD. if target OLD then assign OLD else OLD) (user_roles d)
      in if \<not> list_all (user_roles_all_policy d c) news
           then Inl (insufficient_privilege ''user_roles'')
         else case user_roles_violation d news rows of
                Some e \<Rightarrow> Inl e
              | None \<Rightarrow> Inr (d\<lparr>user_roles := rows\<rparr>))"

subsection \<open>stores\<close>

definition insert_stores :: "caller \<Rightarrow> store \<Rightarrow> db \<Rightarrow> pg_error + db" where
  "insert_stores c s d =
     (if \<not> stores_all_policy d c s then Inl (insufficient_privilege ''stores'')
      else case stores_violation d [s] (stores d @ [s]) of
             Some e \<Rightarrow> Inl e
           | None \<Rightarrow> Inr (d\<lparr>stores := stores d @ [s]\<rparr>))"

definition update_stores ::
  "timestamptz \<Rightarrow> caller \<Rightarrow> (store \<Rightarrow> bool) \<Rightarrow> (store \<Rightarrow> store) \<Rightarrow> db \<Rightarrow> pg_error + db" where
  "update_stores t c cond assign d =
     (let target = (\<lambda>s. cond s \<and> stores_update_policy d c s);
          news = written_rows t target assign (stores d);
          rows = update_rows t target assign (stores d)
      in if \<not> list_all (stores_update_policy d c) news
           then Inl (insufficient_privilege ''stores'')
         else case stores_violation d news rows of
                Some e \<Rightarrow> Inl e
              | None \<Rightarrow> Inr (d\<lparr>stores := rows\<rparr>))"

section \<open>Registration\<close>

text \<open>\<^verbatim>\<open>raw_user_meta_data ->> key\<close>: NULL for a NULL object, a missing key or JSON null.\<close>

definition json_text :: "(string \<times> jsonb_value) list option \<Rightarrow> string \<Rightarrow> string option" where
  "json_text obj k =
     (case obj of
        None \<Rightarrow> None
      | Some kvs \<Rightarrow> (case map_of kvs k of
                      None \<Rightarrow> None
                    | Some JsonNull \<Rightarrow> None
                    | Some (JsonText s) \<Rightarrow> Some s))"

text \<open>
  The values \<^verbatim>\<open>now()\<close> and \<^verbatim>\<open>gen_random_uuid()\<close> take while one operation runs, and the
  message text of a database error.
\<close>

record env =
  now :: timestamptz
  gen_random_uuid :: uuid
  pg_message :: "pg_error \<Rightarrow> string"

text \<open>
  \<^verbatim>\<open>handle_new_user()\<close>. \<^verbatim>\<open>auth.users.email\<close> is nullable and \<^verbatim>\<open>profiles.email\<close> is not, so
  a NULL email fails the first insert. An error in either insert ends the function.
\<close>

definition handle_new_user :: "'a env_scheme \<Rightarrow> auth_user \<Rightarrow> db \<Rightarrow> pg_error + db" where
  "handle_new_user ev NEW d =
     (case au_email NEW of
        None \<Rightarrow> Inl (not_null_violation ''email'')
      | Some e \<Rightarrow>
          (case insert_profiles
                  \<lparr> created_at = now ev, updated_at = now ev,
                    p_id = au_id NEW,
                    p_name = coalesce (json_text (raw_user_meta_data NEW) ''name'') ''Unknown'',
                    p_email = e,
                    p_address = coalesce (json_text (raw_user_meta_data NEW) ''address'') [] \<rparr> d of
             Inl err \<Rightarrow> Inl err
           | Inr d1 \<Rightarrow>
               insert_user_roles
                 \<lparr> ur_id = gen_random_uuid ev, ur_user_id = au_id NEW, ur_role = normal_user,
                   ur_created_at = now ev \<rparr> d1))"

text \<open>
  The insert into \<^verbatim>\<open>auth.users\<close> with its trigger \<^verbatim>\<open>on_auth_user_created\<close>
  (\<^verbatim>\<open>AFTER INSERT ... FOR EACH ROW\<close>), one statement: an error of the trigger is an error
  of the insert. Of the constraints of \<^verbatim>\<open>auth.users\<close> only the primary key is modelled.
\<close>

definition insert_auth_users :: "'a env_scheme \<Rightarrow> auth_user \<Rightarrow> db \<Rightarrow> pg_error + db" where
  "insert_auth_users ev NEW d =
     (if au_id NEW \<in> set (map au_id (auth_users d)) then Inl (unique_violation ''users_pkey'')
      else handle_new_user ev NEW (d\<lparr>auth_users := auth_users d @ [NEW]\<rparr>))"

section \<open>The provisioning endpoint\<close>

text \<open>
  JavaScript values, as a request body and its fields hold them. A number is an integer
  here. An object is the list of its properties; the first binding of a key counts.
\<close>

datatype jsval =
    JUndefined
  | JNull
  | JBool bool
  | JNumber int
  | JString string
  | JArray "jsval list"
  | JObject "(string \<times> jsval) list"

fun truthy :: "jsval \<Rightarrow> bool" where
  "truthy JUndefined = False"
| "truthy JNull = False"
| "truthy (JBool b) = b"
| "truthy (JNumber n) = (n \<noteq> 0)"
| "truthy (JString s) = (s \<noteq> [])"
| "truthy (JArray xs) = True"
| "truthy (JObject kvs) = True"

text \<open>
  One name of the destructuring \<^verbatim>\<open>const { name, email, password, address, role } = body\<close>,
  for a body that is neither \<^verbatim>\<open>null\<close> nor \<^verbatim>\<open>undefined\<close>: the property if the body is an
  object that has it, \<^verbatim>\<open>undefined\<close> otherwise.
\<close>

definition property :: "jsval \<Rightarrow> string \<Rightarrow> jsval" where
  "property v k =
     (case v of
        JObject kvs \<Rightarrow> (case map_of kvs k of Some x \<Rightarrow> x | None \<Rightarrow> JUndefined)
      | _ \<Rightarrow> JUndefined)"

text \<open>\<^verbatim>\<open>a || b\<close> on strings.\<close>

definition or_else :: "string \<Rightarrow> string \<Rightarrow> string" where
  "or_else a b = (if a = [] then b else a)"

record js_error =
  err_message :: string

record request =
  req_method :: string
  req_body :: jsval

record create_user_args =
  cu_email :: jsval
  cu_password :: jsval
  cu_name :: jsval
  cu_address :: jsval

text \<open>
  What the authentication service does with the arguments of \<^verbatim>\<open>auth.admin.createUser\<close>
  is not part of this program: it accepts them and forms the row for \<^verbatim>\<open>auth.users\<close>,
  or rejects them with an error, or the call throws, or it answers with neither a user
  nor an error (the handler provides for that: \<^verbatim>\<open>data && data.user ? ... : null\<close>).
  \<^verbatim>\<open>JSON.parse\<close> is a parameter as well: \<open>None\<close> when it throws.
\<close>

datatype auth_decision = accept auth_user | reject js_error | throw js_error | no_user

record server_env = env +
  JSON_parse :: "string \<Rightarrow> jsval option"
  auth_admin :: "create_user_args \<Rightarrow> db \<Rightarrow> auth_decision"

text \<open>
  \<^verbatim>\<open>supabase.auth.admin.createUser\<close>: the result \<^verbatim>\<open>{ data, error }\<close> with \<^verbatim>\<open>data.user\<close> as an
  option, or \<open>Inl\<close> of the exception thrown. An accepted identity is inserted into
  \<^verbatim>\<open>auth.users\<close>, which fires \<open>handle_new_user\<close>; a database error there is the
  provider's error.
\<close>

definition createUser ::
  "server_env \<Rightarrow> create_user_args \<Rightarrow> db \<Rightarrow>
   (js_error + auth_user option \<times> js_error option) \<times> db" where
  "createUser ev args d =
     (case auth_admin ev args d of
        throw ex \<Rightarrow> (Inl ex, d)
      | reject err \<Rightarrow> (Inr (None, Some err), d)
      | no_user \<Rightarrow> (Inr (None, None), d)
      | accept NEW \<Rightarrow>
          (case insert_auth_users ev NEW d of
             Inl e \<Rightarrow> (Inr (None, Some \<lparr>err_message = pg_message ev e\<rparr>), d)
           | Inr d1 \<Rightarrow> (Inr (Some NEW, None), d1)))"

text \<open>The input function of the enum \<^verbatim>\<open>app_role\<close>, on the JSON value sent for the column.\<close>

definition app_role_of :: "jsval \<Rightarrow> app_role option" where
  "app_role_of v =
     (if v = JString ''system_admin'' then Some system_admin
      else if v = JString ''normal_user'' then Some normal_user
      else if v = JString ''store_owner'' then Some store_owner
      else None)"

text \<open>
  \<^verbatim>\<open>supabase.from('user_roles').update({ role }).eq('user_id', id)\<close> with the service key:
  the \<^verbatim>\<open>error\<close> of the result, and the database afterwards. The query is awaited as it is
  (no \<^verbatim>\<open>throwOnError()\<close>): the client reports a failure in \<^verbatim>\<open>error\<close>.
\<close>

definition update_role :: "server_env \<Rightarrow> jsval \<Rightarrow> uuid \<Rightarrow> db \<Rightarrow> js_error option \<times> db" where
  "update_role ev role uid d =
     (case app_role_of role of
        None \<Rightarrow>
          (Some \<lparr>err_message = pg_message ev (invalid_text_representation ''app_role'')\<rparr>, d)
      | Some r \<Rightarrow>
          (case update_user_roles service_role (\<lambda>row. ur_user_id row = uid)
                  (\<lambda>row. row\<lparr>ur_role := r\<rparr>) d of
             Inl e \<Rightarrow> (Some \<lparr>err_message = pg_message ev e\<rparr>, d)
           | Inr d2 \<Rightarrow> (None, d2)))"

record user_view =
  uv_id :: uuid
  uv_email :: "string option"
  uv_user_metadata :: "(string \<times> jsonb_value) list option"

datatype json_body = error_body string | success_body "user_view option"

text \<open>What a request ends with: a response, or an exception that leaves the handler.\<close>

datatype outcome = responded nat json_body | uncaught string

definition ok_response :: "auth_user option \<Rightarrow> outcome" where
  "ok_response data =
     responded 200 (success_body (map_option
       (\<lambda>u. \<lparr>uv_id = au_id u, uv_email = au_email u, uv_user_metadata = raw_user_meta_data u\<rparr>)
       data))"

text \<open>The body after \<^verbatim>\<open>if (typeof body === 'string') body = JSON.parse(body)\<close>.\<close>

definition request_body :: "server_env \<Rightarrow> request \<Rightarrow> jsval option" where
  "request_body ev req = (case req_body req of JString s \<Rightarrow> JSON_parse ev s | b \<Rightarrow> Some b)"

text \<open>The argument \<^verbatim>\<open>{ email, password, user_metadata: { name, address } }\<close>.\<close>

definition createUser_args :: "jsval \<Rightarrow> create_user_args" where
  "createUser_args body =
     \<lparr> cu_email = property body ''email'', cu_password = property body ''password'',
       cu_name = property body ''name'', cu_address = property body ''address'' \<rparr>"

text \<open>The \<^verbatim>\<open>try\<close> block from the result of \<^verbatim>\<open>createUser\<close> on, with its \<^verbatim>\<open>catch\<close>.\<close>

definition after_createUser ::
  "server_env \<Rightarrow> jsval \<Rightarrow> (js_error + auth_user option \<times> js_error option) \<times> db \<Rightarrow>
   outcome \<times> db" where
  "after_createUser ev role created =
     (case created of
        (Inl ex, d1) \<Rightarrow>
          (responded 400 (error_body (or_else (err_message ex) ''Unknown error'')), d1)
      | (Inr (data, Some error), d1) \<Rightarrow>
          (responded 400 (error_body (or_else (err_message error) ''Supabase error'')), d1)
      | (Inr (data, None), d1) \<Rightarrow>
          (case data of
             None \<Rightarrow> (ok_response data, d1)
           | Some u \<Rightarrow>
               if truthy role \<and> role \<noteq> JString ''normal_user'' then
                 (case update_role ev role (au_id u) d1 of
                    (Some roleError, d2) \<Rightarrow>
                      (responded 400
                         (error_body (or_else (err_message roleError) ''Role update error'')),
                       d2)
                  | (None, d2) \<Rightarrow> (ok_response data, d2))
               else (ok_response data, d1)))"

text \<open>
  \<^verbatim>\<open>handler(req, res)\<close>. The destructuring of the body stands before the \<^verbatim>\<open>try\<close>, so its
  \<^verbatim>\<open>TypeError\<close> on \<^verbatim>\<open>null\<close> or \<^verbatim>\<open>undefined\<close> is not caught. A user's id is never falsy,
  so \<^verbatim>\<open>data && data.user && data.user.id\<close> is: \<open>data\<close> holds a user.
\<close>

definition handler :: "server_env \<Rightarrow> request \<Rightarrow> db \<Rightarrow> outcome \<times> db" where
  "handler ev req d =
     (if req_method req \<noteq> ''POST'' then (responded 405 (error_body ''Method not allowed''), d)
      else
        case request_body ev req of
          None \<Rightarrow> (responded 400 (error_body ''Invalid JSON format''), d)
        | Some body \<Rightarrow>
            if body = JUndefined \<or> body = JNull then (uncaught ''TypeError'', d)
            else after_createUser ev (property body ''role'')
                   (createUser ev (createUser_args body) d))"

section \<open>The dashboards\<close>

datatype toast = toast string string

subsection \<open>\<^verbatim>\<open>NormalUserDashboard\<close>\<close>













subsection \<open>\<^verbatim>\<open>SystemAdminDashboard\<close>\<close>

record newStore =
  ns_name :: string
  ns_email :: string
  ns_address :: string
  ns_ownerEmail :: string

text \<open>\<^verbatim>\<open>.single()\<close>: the row if the query returns exactly one, no data otherwise.\<close>

definition single :: "'a list \<Rightarrow> 'a option" where
  "single rows = (case rows of [x] \<Rightarrow> Some x | _ \<Rightarrow> None)"

text \<open>
  \<^verbatim>\<open>createStore\<close>, issued by the caller \<open>c\<close> who uses the dashboard: the toast and the
  database afterwards. The result of the role update is awaited and dropped.
\<close>

definition createStore :: "'a env_scheme \<Rightarrow> caller \<Rightarrow> newStore \<Rightarrow> db \<Rightarrow> toast \<times> db" where
  "createStore ev c form d =
     (case single (select_profiles c (\<lambda>p. p_email p = ns_ownerEmail form) d) of
        None \<Rightarrow> (toast ''Error'' ''Owner not found with this email'', d)
      | Some ownerData \<Rightarrow>
          (case insert_stores c
                  \<lparr> created_at = now ev, updated_at = now ev, s_id = gen_random_uuid ev,
                    s_owner_id = p_id ownerData, s_name = ns_name form,
                    s_email = ns_email form, s_address = ns_address form \<rparr> d of
             Inl error \<Rightarrow> (toast ''Error'' (pg_message ev error), d)
           | Inr d1 \<Rightarrow>
               (toast ''Success'' ''Store created successfully'',
                snd (exec (update_user_roles c (\<lambda>r. ur_user_id r = p_id ownerData)
                             (\<lambda>r. r\<lparr>ur_role := store_owner\<rparr>)) d1))))"

section \<open>A small database\<close>

text \<open>
  Three identities (Alice 1, Bob 2, the administrator Carol 3), two stores of Bob, and two
  ratings of the first store.
\<close>

definition alice :: auth_user where
  "alice = \<lparr> au_id = 1, au_email = Some ''alice@example.com'',
             raw_user_meta_data = Some [(''name'', JsonText ''Alice''),
                                        (''address'', JsonText ''1 Main Street'')] \<rparr>"

definition bob :: auth_user where
  "bob = \<lparr> au_id = 2, au_email = Some ''bob@example.com'',
           raw_user_meta_data = Some [(''name'', JsonText ''Bob''),
                                      (''address'', JsonText ''2 Main Street'')] \<rparr>"

definition carol :: auth_user where
  "carol = \<lparr> au_id = 3, au_email = Some ''carol@example.com'',
             raw_user_meta_data = Some [(''name'', JsonText ''Carol''),
                                        (''address'', JsonText ''3 Main Street'')] \<rparr>"

definition profile_of :: "auth_user \<Rightarrow> string \<Rightarrow> string \<Rightarrow> string \<Rightarrow> profile" where
  "profile_of u n e a =
     \<lparr> created_at = 100, updated_at = 100, p_id = au_id u, p_name = n, p_email = e,
       p_address = a \<rparr>"

definition bakery :: store where
  "bakery = \<lparr> created_at = 110, updated_at = 110, s_id = 10, s_owner_id = 2,
              s_name = ''Bakery'', s_email = ''bakery@example.com'', s_address = ''5 Mill Lane'' \<rparr>"

definition bookshop :: store where
  "bookshop = \<lparr> created_at = 111, updated_at = 111, s_id = 11, s_owner_id = 2,
                s_name = ''Bookshop'', s_email = ''books@example.com'', s_address = ''6 Mill Lane'' \<rparr>"

definition alice_rating :: rating_row where
  "alice_rating = \<lparr> created_at = 120, updated_at = 120, r_id = 20, r_user_id = 1,
                    r_store_id = 10, rating = 4 \<rparr>"

definition carol_rating :: rating_row where
  "carol_rating = \<lparr> created_at = 121, updated_at = 121, r_id = 21, r_user_id = 3,
                    r_store_id = 10, rating = 5 \<rparr>"

definition example_db :: db where
  "example_db =
     \<lparr> auth_users = [alice, bob, carol],
       profiles = [profile_of alice ''Alice'' ''alice@example.com'' ''1 Main Street'',
                   profile_of bob ''Bob'' ''bob@example.com'' ''2 Main Street'',
                   profile_of carol ''Carol'' ''carol@example.com'' ''3 Main Street''],
       user_roles = [\<lparr> ur_id = 31, ur_user_id = 1, ur_role = normal_user, ur_created_at = 100 \<rparr>,
                     \<lparr> ur_id = 32, ur_user_id = 2, ur_role = store_owner, ur_created_at = 100 \<rparr>,
                     \<lparr> ur_id = 33, ur_user_id = 3, ur_role = system_admin, ur_created_at = 100 \<rparr>],
       stores = [bakery, bookshop],
       ratings = [alice_rating, carol_rating] \<rparr>"

text \<open>The same database after Bob has rated the bakery with 5: its ratings are 4, 5, 5.\<close>

definition bob_rating :: rating_row where
  "bob_rating = \<lparr> created_at = 122, updated_at = 122, r_id = 26, r_user_id = 2,
                  r_store_id = 10, rating = 5 \<rparr>"

definition example_db_three :: db where
  "example_db_three = example_db\<lparr>ratings := [alice_rating, carol_rating, bob_rating]\<rparr>"

text \<open>A second rating of the bakery by Alice.\<close>

definition second_rating :: rating_row where
  "second_rating = \<lparr> created_at = 130, updated_at = 130, r_id = 22, r_user_id = 1,
                     r_store_id = 10, rating = 2 \<rparr>"

text \<open>
  An environment, and an identity to register whose metadata has a name and no address.
\<close>

fun example_message :: "pg_error \<Rightarrow> string" where
  "example_message (not_null_violation n) = ''null value violates not-null constraint: '' @ n"
| "example_message (check_violation n) = ''new row violates check constraint '' @ n"
| "example_message (unique_violation n) =
     ''duplicate key value violates unique constraint '' @ n"
| "example_message (foreign_key_violation n) = ''violates foreign key constraint '' @ n"
| "example_message (invalid_text_representation n) = ''invalid input value for enum '' @ n"
| "example_message (insufficient_privilege n) =
     ''new row violates row-level security policy for table '' @ n"

definition example_env :: env where
  "example_env = \<lparr> now = 200, gen_random_uuid = 34, pg_message = example_message \<rparr>"

definition jane :: auth_user where
  "jane = \<lparr> au_id = 4, au_email = Some ''jane@example.com'',
            raw_user_meta_data = Some [(''name'', JsonText ''Jane'')] \<rparr>"

text \<open>The same database with Bob's and Carol's profiles changed.\<close>

definition example_db_changed :: db where
  "example_db_changed =
     example_db\<lparr>profiles :=
       [profile_of alice ''Alice'' ''alice@example.com'' ''1 Main Street'',
        profile_of bob ''Robert'' ''robert@example.com'' ''20 High Street'',
        profile_of carol ''Caroline'' ''caroline@example.com'' ''30 High Street'']\<rparr>"

text \<open>
  A rating of the bookshop that Alice inserts with a value of her own for \<open>updated_at\<close>,
  the database after that insert, and a later update of that rating.
\<close>

definition future_rating :: rating_row where
  "future_rating = \<lparr> created_at = 130, updated_at = 900, r_id = 23, r_user_id = 1,
                     r_store_id = 11, rating = 3 \<rparr>"

definition example_db_future :: db where
  "example_db_future = example_db\<lparr>ratings := [alice_rating, carol_rating, future_rating]\<rparr>"

definition of_bookshop :: "rating_row \<Rightarrow> bool" where
  "of_bookshop r = (r_store_id r = 11)"

definition five_stars :: "rating_row \<Rightarrow> rating_row" where
  "five_stars r = r\<lparr>rating := 5\<rparr>"

text \<open>
  A stand-in for the authentication service: it accepts any request whose email is a
  non-empty string (a password is not required) and forms identity 4 from it, and rejects
  the others. The stand-in for \<^verbatim>\<open>JSON.parse\<close> knows the texts \<^verbatim>\<open>null\<close> and \<^verbatim>\<open>{}\<close>; the examples
  apply it to no other valid JSON text.
\<close>

definition meta_of :: "string \<Rightarrow> jsval \<Rightarrow> (string \<times> jsonb_value) list" where
  "meta_of k v =
     (case v of JString s \<Rightarrow> [(k, JsonText s)] | JNull \<Rightarrow> [(k, JsonNull)] | _ \<Rightarrow> [])"

definition example_auth_admin :: "create_user_args \<Rightarrow> db \<Rightarrow> auth_decision" where
  "example_auth_admin args d =
     (case cu_email args of
        JString e \<Rightarrow>
          if e = [] then reject \<lparr>err_message = ''Cannot create a user without an email''\<rparr>
          else accept \<lparr> au_id = 4, au_email = Some e,
                        raw_user_meta_data =
                          Some (meta_of ''name'' (cu_name args) @
                                meta_of ''address'' (cu_address args)) \<rparr>
      | _ \<Rightarrow> reject \<lparr>err_message = ''Cannot create a user without an email''\<rparr>)"

definition example_parse :: "string \<Rightarrow> jsval option" where
  "example_parse s =
     (if s = ''null'' then Some JNull else if s = ''{}'' then Some (JObject []) else None)"

definition example_server_env :: server_env where
  "example_server_env =
     \<lparr> now = 200, gen_random_uuid = 34, pg_message = example_message,
       JSON_parse = example_parse, auth_admin = example_auth_admin \<rparr>"

text \<open>The same environment with a service that answers with no user and no error.\<close>

definition silent_server_env :: server_env where
  "silent_server_env = example_server_env\<lparr>auth_admin := (\<lambda>args d. no_user)\<rparr>"

text \<open>Requests: for Jane without a password, and for Jane with a role.\<close>

definition jane_body :: "(string \<times> jsval) list" where
  "jane_body = [(''name'', JString ''Jane''), (''email'', JString ''jane@example.com'')]"

definition post :: "jsval \<Rightarrow> request" where
  "post body = \<lparr> req_method = ''POST'', req_body = body \<rparr>"

definition example_db_jane :: db where
  "example_db_jane =
     \<lparr> auth_users = [alice, bob, carol, jane],
       profiles = [profile_of alice ''Alice'' ''alice@example.com'' ''1 Main Street'',
                   profile_of bob ''Bob'' ''bob@example.com'' ''2 Main Street'',
                   profile_of carol ''Carol'' ''carol@example.com'' ''3 Main Street'',
                   \<lparr> created_at = 200, updated_at = 200, p_id = 4, p_name = ''Jane'',
                     p_email = ''jane@example.com'', p_address = [] \<rparr>],
       user_roles = [\<lparr> ur_id = 31, ur_user_id = 1, ur_role = normal_user, ur_created_at = 100 \<rparr>,
                     \<lparr> ur_id = 32, ur_user_id = 2, ur_role = store_owner, ur_created_at = 100 \<rparr>,
                     \<lparr> ur_id = 33, ur_user_id = 3, ur_role = system_admin, ur_created_at = 100 \<rparr>,
                     \<lparr> ur_id = 34, ur_user_id = 4, ur_role = normal_user, ur_created_at = 200 \<rparr>],
       stores = [bakery, bookshop],
       ratings = [alice_rating, carol_rating] \<rparr>"

definition jane_view :: user_view where
  "jane_view = \<lparr> uv_id = 4, uv_email = Some ''jane@example.com'',
                 uv_user_metadata = Some [(''name'', JsonText ''Jane'')] \<rparr>"


definition jane_body_admin :: "(string \<times> jsval) list" where
  "jane_body_admin = jane_body @ [(''role'', JString ''admin'')]"

definition get_request :: request where
  "get_request = \<lparr> req_method = ''GET'', req_body = JUndefined \<rparr>"

text \<open>
  Store creation: Alice holds two roles, and the administrator Carol creates a store for
  her. Two ratings of the bookshop by Alice, at times 200 and 210.
\<close>

definition example_db_two_roles :: db where
  "example_db_two_roles =
     example_db\<lparr>user_roles := user_roles example_db @
       [\<lparr> ur_id = 35, ur_user_id = 1, ur_role = system_admin, ur_created_at = 150 \<rparr>]\<rparr>"

definition cafe_form :: newStore where
  "cafe_form = \<lparr> ns_name = ''Cafe'', ns_email = ''cafe@example.com'',
                 ns_address = ''7 Mill Lane'', ns_ownerEmail = ''alice@example.com'' \<rparr>"

definition cafe :: store where
  "cafe = \<lparr> created_at = 200, updated_at = 200, s_id = 12, s_owner_id = 1,
            s_name = ''Cafe'', s_email = ''cafe@example.com'', s_address = ''7 Mill Lane'' \<rparr>"

text \<open>The roles of \<open>example_db\<close> after Alice's row has been set to \<open>store_owner\<close>.\<close>

definition cafe_roles :: "user_role list" where
  "cafe_roles =
     [\<lparr> ur_id = 31, ur_user_id = 1, ur_role = store_owner, ur_created_at = 100 \<rparr>,
      \<lparr> ur_id = 32, ur_user_id = 2, ur_role = store_owner, ur_created_at = 100 \<rparr>,
      \<lparr> ur_id = 33, ur_user_id = 3, ur_role = system_admin, ur_created_at = 100 \<rparr>]"

definition store_env :: env where
  "store_env = \<lparr> now = 200, gen_random_uuid = 12, pg_message = example_message \<rparr>"





section \<open>The aggregate of the view\<close>

lemma filter_left_join_other:
  "s_id s \<notin> s_id ` set ss \<Longrightarrow> filter (\<lambda>row. group_key (fst row) = group_key s) (left_join ss rs) = []"
  by (induction ss) (auto simp: left_join_def join_rows_def group_key_def Let_def)

lemma filter_join_rows_self:
  "filter (\<lambda>row. group_key (fst row) = group_key s) (join_rows rs s) = join_rows rs s"
  by (auto simp: join_rows_def Let_def)

lemma filter_left_join_self:
  "distinct (map s_id ss) \<Longrightarrow> s \<in> set ss \<Longrightarrow>
   filter (\<lambda>row. group_key (fst row) = group_key s) (left_join ss rs) = join_rows rs s"
proof (induction ss)
  case Nil then show ?case by simp
next
  case (Cons a ss)
  show ?case
  proof (cases "a = s")
    case True
    with Cons.prems have "s_id s \<notin> s_id ` set ss" by auto
    from filter_left_join_other[OF this, of rs] True show ?thesis
      by (simp add: left_join_def filter_join_rows_self)
  next
    case False
    with Cons.prems have in_ss: "s \<in> set ss" and d: "distinct (map s_id ss)" and "s_id a \<noteq> s_id s"
      by auto
    then have "filter (\<lambda>row. group_key (fst row) = group_key s) (join_rows rs a) = []"
      by (auto simp: join_rows_def Let_def group_key_def)
    with Cons.IH[OF d in_ss] show ?thesis
      by (simp add: left_join_def)
  qed
qed

lemma small_weight: "n < 10000 \<Longrightarrow> numeric_weight n = 0"
  by (simp add: numeric_weight.simps)

lemma small_first_digit: "n < 10000 \<Longrightarrow> first_digit n = n"
  by (simp add: first_digit.simps)

lemma weight_bounds: "0 < n \<Longrightarrow> 10000 ^ numeric_weight n \<le> n \<and> n < 10000 * 10000 ^ numeric_weight n"
proof (induction n rule: numeric_weight.induct)
  case (1 n)
  show ?case
  proof (cases "n < 10000")
    case True
    with 1(2) show ?thesis by (simp add: small_weight)
  next
    case False
    then have p: "0 < n div 10000" by (simp add: div_greater_zero_iff)
    from 1(1) [OF False p] have
      a: "10000 ^ numeric_weight (n div 10000) \<le> n div 10000" and
      b: "n div 10000 < 10000 * 10000 ^ numeric_weight (n div 10000)" by simp_all
    have w: "numeric_weight n = Suc (numeric_weight (n div 10000))"
      using False by (subst numeric_weight.simps) simp
    let ?W = "(10000::nat) ^ numeric_weight (n div 10000)"
    have "10000 * ?W \<le> 10000 * (n div 10000)" using a by simp
    also have "\<dots> \<le> n" by simp
    finally have l: "10000 * ?W \<le> n" .
    have "n < 10000 * (n div 10000 + 1)"
      by (metis Suc_eq_plus1 dividend_less_times_div mult.commute mult_Suc_right zero_less_numeral add.commute)
    also have "\<dots> \<le> 10000 * (10000 * ?W)" using b by simp
    finally have u: "n < 10000 * (10000 * ?W)" .
    from l u show ?thesis by (simp add: w)
  qed
qed

lemma first_digit_div: "first_digit n = n div 10000 ^ numeric_weight n"
proof (induction n rule: first_digit.induct)
  case (1 n)
  show ?case
  proof (cases "n < 10000")
    case True
    then show ?thesis by (simp add: small_weight small_first_digit)
  next
    case False
    have w: "numeric_weight n = Suc (numeric_weight (n div 10000))"
      using False by (subst numeric_weight.simps) simp
    have f: "first_digit n = first_digit (n div 10000)"
      using False by (subst first_digit.simps) simp
    show ?thesis
      by (simp add: f w 1 [OF False] div_mult2_eq)
  qed
qed

lemma qweight_rating:
  assumes "0 < b" and "b \<le> a" and "a \<le> 5 * b"
  shows "int (numeric_weight a) - int (numeric_weight b) -
         (if first_digit a \<le> first_digit b then 1 else 0) \<le> 0"
proof -
  let ?wa = "numeric_weight a" and ?wb = "numeric_weight b"
  from assms have pa: "0 < a" by simp
  note A = weight_bounds [OF pa] and B = weight_bounds [OF assms(1)]
  have "10000 ^ ?wa \<le> a" using A by simp
  also have "\<dots> \<le> 5 * b" by (rule assms(3))
  also have "\<dots> < 5 * (10000 * 10000 ^ ?wb)" using B by simp
  also have "\<dots> < 10000 * (10000 * 10000 ^ ?wb)" by simp
  finally have "(10000::nat) ^ ?wa < 10000 ^ (Suc (Suc ?wb))" by simp
  then have le: "?wa < Suc (Suc ?wb)"
    by (rule power_less_imp_less_exp [rotated]) simp
  show ?thesis
  proof (cases "?wa \<le> ?wb")
    case True
    then show ?thesis by simp
  next
    case False
    with le have eq: "?wa = Suc ?wb" by simp
    let ?W = "(10000::nat) ^ ?wb"
    have W: "0 < ?W" by simp
    have "a < 5 * (10000 * ?W)" using assms(3) B by simp
    then have "a < 5 * (10000 ^ ?wa)" by (simp add: eq)
    then have fa: "first_digit a < 5"
      by (simp add: first_digit_div less_mult_imp_div_less mult.commute)
    have "10000 * ?W \<le> a" using A by (simp add: eq)
    with assms(3) have "10000 * ?W \<le> 5 * b" by simp
    then have "2000 * ?W \<le> b" by simp
    then have "2000 \<le> b div ?W"
      using W by (simp add: less_eq_div_iff_mult_less_eq)
    then have fb: "2000 \<le> first_digit b" by (simp add: first_digit_div)
    from fa fb have "first_digit a \<le> first_digit b" by simp
    then show ?thesis by (simp add: eq)
  qed
qed

lemma select_div_scale_rating:
  assumes "0 < b" and "b \<le> a" and "a \<le> 5 * b"
  shows "16 \<le> select_div_scale a b \<and> select_div_scale a b \<le> 20"
proof -
  have na: "nat \<bar>a\<bar> = nat a" and nb: "nat \<bar>b\<bar> = nat b" using assms by simp_all
  have 1: "0 < nat b" "nat b \<le> nat a" "nat a \<le> 5 * nat b" using assms by simp_all
  let ?q = "int (numeric_weight (nat a)) - int (numeric_weight (nat b)) -
         (if first_digit (nat a) \<le> first_digit (nat b) then 1 else 0)"
  from qweight_rating [OF 1] have q: "?q \<le> 0" .
  have "numeric_weight (nat b) \<le> numeric_weight (nat a)"
  proof (rule ccontr)
    assume "\<not> numeric_weight (nat b) \<le> numeric_weight (nat a)"
    then have "Suc (numeric_weight (nat a)) \<le> numeric_weight (nat b)" by simp
    then have "(10000::nat) ^ Suc (numeric_weight (nat a)) \<le> 10000 ^ numeric_weight (nat b)"
      by (rule power_increasing) simp
    also have "\<dots> \<le> nat b" using weight_bounds [OF 1(1)] by simp
    also have "\<dots> \<le> nat a" by (rule 1(2))
    also have "\<dots> < 10000 * 10000 ^ numeric_weight (nat a)"
      using weight_bounds [of "nat a"] 1 by simp
    finally show False by simp
  qed
  then have q2: "- 1 \<le> ?q" by simp
  define qw where "qw = ?q"
  have s: "select_div_scale a b = nat (min (max (16 - qw * 4) 0) 1000)"
    unfolding select_div_scale_def Let_def na nb qw_def ..
  from q q2 have "qw \<le> 0" "- 1 \<le> qw" by (simp_all only: qw_def)
  then show ?thesis
    unfolding s by auto
qed

lemma numeric_div_error:
  assumes "0 \<le> a" and "0 < b"
  shows "\<bar>numeric_div a b - of_int a / of_int b\<bar> \<le> 1 / (2 * 10 ^ select_div_scale a b)"
proof -
  let ?s = "select_div_scale a b"
  let ?P = "(10::int) ^ ?s"
  let ?q = "(2 * a * ?P + b) div (2 * b)"
  let ?r = "(2 * a * ?P + b) mod (2 * b)"
  have P: "0 < ?P" by simp
  have r: "0 \<le> ?r" "?r < 2 * b" using assms(2) by simp_all
  have e: "2 * b * ?q + ?r = 2 * a * ?P + b"
    by (simp add: mult.commute)
  have nd: "numeric_div a b = of_int ?q / of_int ?P"
  proof (cases "a = 0")
    case True
    then show ?thesis using assms(2) by (simp add: numeric_div_def Let_def)
  next
    case False
    with assms have "sgn a = 1" "sgn b = 1" "\<bar>a\<bar> = a" "\<bar>b\<bar> = b" by simp_all
    then show ?thesis by (simp add: numeric_div_def Let_def)
  qed
  have "2 * b * ?q - 2 * a * ?P = b - ?r" using e by linarith
  then have "\<bar>2 * b * ?q - 2 * a * ?P\<bar> \<le> b" using r by simp
  then have "(of_int \<bar>2 * b * ?q - 2 * a * ?P\<bar> :: rat) \<le> of_int b"
    by (simp only: of_int_le_iff)
  moreover define B :: rat where "B = of_int b"
  moreover define Q :: rat where "Q = of_int ?q"
  moreover define A :: rat where "A = of_int a"
  moreover define R :: rat where "R = 10 ^ ?s"
  ultimately have k: "\<bar>2 * B * Q - 2 * A * R\<bar> \<le> B"
    by simp
  have bp: "0 < B" "0 < R" using assms(2) by (simp_all add: B_def R_def)
  have "Q / R - A / B = (2 * B * Q - 2 * A * R) / (2 * B * R)"
    using bp by (simp add: field_simps)
  then have "\<bar>Q / R - A / B\<bar> = \<bar>2 * B * Q - 2 * A * R\<bar> / (2 * B * R)"
    using bp by (simp add: abs_mult)
  also have "\<dots> \<le> B / (2 * B * R)"
    by (rule divide_right_mono [OF k]) (use bp in simp)
  also have "\<dots> = 1 / (2 * R)"
    using bp by simp
  finally have "\<bar>Q / R - A / B\<bar> \<le> 1 / (2 * R)" .
  moreover have "numeric_div a b = Q / R"
    by (simp add: nd Q_def R_def)
  ultimately show ?thesis
    by (simp add: A_def B_def R_def)
qed

lemma avg_join_rows:
  "sql_avg (map (\<lambda>row. map_option rating (snd row)) (join_rows rs s)) =
   (let xs = map rating (filter (\<lambda>r. s_id s = r_store_id r) rs)
    in if xs = [] then None else Some (numeric_div (sum_list xs) (int (length xs))))"
proof -
  have *: "concat (map (\<lambda>v. case v of None \<Rightarrow> [] | Some x \<Rightarrow> [x]) (map (\<lambda>r. Some (rating r)) ms)) = map rating ms" for ms :: "rating_row list"
    by (induction ms) auto
  show ?thesis
    by (auto simp: sql_avg_def join_rows_def Let_def o_def *)
qed

lemma count_join_rows:
  "sql_count (map (\<lambda>row. map_option r_id (snd row)) (join_rows rs s)) =
   length (filter (\<lambda>r. s_id s = r_store_id r) rs)"
  by (auto simp: sql_count_def join_rows_def Let_def o_def)

lemma only_one: "x \<in> set xs \<Longrightarrow> distinct xs \<Longrightarrow> filter (\<lambda>k. k = x) xs = [x]"
  by (induction xs) (auto simp: filter_empty_conv)

lemma fst_join_rows: "fst ` set (join_rows rs s) = {s}"
  by (auto simp: join_rows_def Let_def image_iff filter_empty_conv)

lemma keys_of_store:
  assumes "distinct (map s_id ss)" "s \<in> set ss"
  shows "filter (\<lambda>k. fst k = s_id s) (remdups (map (\<lambda>row. group_key (fst row)) (left_join ss rs))) = [group_key s]"
proof -
  let ?ks = "remdups (map (\<lambda>row. group_key (fst row)) (left_join ss rs))"
  have fst_rows: "fst ` set (left_join ss rs) = set ss"
    using fst_join_rows[of rs] by (auto simp: left_join_def image_UN)
  have "set ?ks = group_key ` (fst ` set (left_join ss rs))"
    by (simp add: image_image)
  then have ks: "set ?ks = group_key ` set ss"
    by (simp only: fst_rows)
  have same: "t = s" if "t \<in> set ss" "s_id t = s_id s" for t
    using that assms by (auto simp: distinct_map inj_on_def)
  have "filter (\<lambda>k. fst k = s_id s) ?ks = filter (\<lambda>k. k = group_key s) ?ks"
  proof (rule filter_cong[OF refl])
    fix k assume "k \<in> set ?ks"
    then obtain t where t: "t \<in> set ss" "k = group_key t" using ks by auto
    show "(fst k = s_id s) = (k = group_key s)"
    proof
      assume "fst k = s_id s"
      then have "s_id t = s_id s" using t by (simp add: group_key_def)
      then show "k = group_key s" using same t by blast
    qed (simp add: group_key_def)
  qed
  also have "\<dots> = [group_key s]"
  proof -
    have "group_key s \<in> set ?ks" using ks assms(2) by blast
    moreover have "distinct ?ks" by simp
    ultimately show ?thesis
      by (rule only_one)
  qed
  finally show ?thesis .
qed

lemma sr_id_group: "sr_id (store_ratings_group j k) = fst k"
  by (simp add: store_ratings_group_def Let_def split: prod.splits)

lemma view_ids:
  "map sr_id (store_ratings d) =
   map fst (remdups (map (\<lambda>row. group_key (fst row)) (left_join (stores d) (ratings d))))"
  by (simp add: store_ratings_def Let_def sr_id_group comp_def)

lemma view_keys:
  "set (remdups (map (\<lambda>row. group_key (fst row)) (left_join ss rs))) = group_key ` set ss"
proof -
  have fst_rows: "fst ` set (left_join ss rs) = set ss"
    using fst_join_rows[of rs] by (auto simp: left_join_def image_UN)
  have "set (remdups (map (\<lambda>row. group_key (fst row)) (left_join ss rs))) =
        group_key ` (fst ` set (left_join ss rs))"
    by (simp add: image_image)
  then show ?thesis
    by (simp only: fst_rows)
qed

lemma view_rows_of_stores:
  assumes "distinct (map s_id (stores d))"
  shows "set (map sr_id (store_ratings d)) = set (map s_id (stores d)) \<and>
         distinct (map sr_id (store_ratings d))"
proof -
  let ?ks = "remdups (map (\<lambda>row. group_key (fst row)) (left_join (stores d) (ratings d)))"
  note m = view_ids [of d] and ks = view_keys [of "stores d" "ratings d"]
  have f: "fst (group_key s) = s_id s" for s
    by (simp add: group_key_def)
  have "set (map sr_id (store_ratings d)) = fst ` set ?ks"
    by (simp only: m set_map)
  also have "\<dots> = fst ` group_key ` set (stores d)"
    by (simp only: ks)
  also have "\<dots> = set (map s_id (stores d))"
    by (simp add: image_image f)
  finally have 1: "set (map sr_id (store_ratings d)) = set (map s_id (stores d))" .
  have "inj_on fst (set ?ks)"
  proof (rule inj_onI)
    fix k k' assume "k \<in> set ?ks" "k' \<in> set ?ks" and e: "fst k = fst k'"
    then obtain s t where s: "s \<in> set (stores d)" "k = group_key s"
      and t: "t \<in> set (stores d)" "k' = group_key t"
      unfolding ks by auto
    from e s t have "s_id s = s_id t" by (simp add: f)
    with s(1) t(1) assms have "s = t" by (auto simp: distinct_map inj_on_def)
    with s t show "k = k'" by simp
  qed
  then have 2: "distinct (map sr_id (store_ratings d))"
    by (simp only: m distinct_map distinct_remdups simp_thms)
  from 1 2 show ?thesis ..
qed

lemma sum_list_rating_bounds:
  "list_all (\<lambda>x. 1 \<le> x \<and> x \<le> 5) xs \<Longrightarrow>
   int (length xs) \<le> sum_list xs \<and> sum_list xs \<le> 5 * int (length xs)"
  by (induction xs) auto

lemma avg_within_rounding:
  assumes "xs \<noteq> []" and "list_all (\<lambda>x. 1 \<le> x \<and> x \<le> 5) xs"
  shows "\<bar>numeric_div (sum_list xs) (int (length xs)) -
          of_int (sum_list xs) / of_int (int (length xs))\<bar> \<le> 1 / (2 * 10 ^ 16)"
proof -
  let ?a = "sum_list xs" and ?b = "int (length xs)"
  have b: "0 < ?b" using assms(1) by simp
  note s = sum_list_rating_bounds [OF assms(2)]
  from s b have a: "0 \<le> ?a" by simp
  from select_div_scale_rating [OF b conjunct1 [OF s] conjunct2 [OF s]]
  have "16 \<le> select_div_scale ?a ?b" ..
  then have "(10::rat) ^ 16 \<le> 10 ^ select_div_scale ?a ?b"
    by (rule power_increasing) simp
  then have "1 / (2 * (10::rat) ^ select_div_scale ?a ?b) \<le> 1 / (2 * 10 ^ 16)"
    by (simp add: frac_le)
  with numeric_div_error [OF a b] show ?thesis
    by (rule order_trans)
qed

text \<open>
  C1. Under the primary key of \<^verbatim>\<open>stores\<close>, the rows of the view are the stores, one row
  each. The row of a store \<open>s\<close> has as \<open>total_ratings\<close> the number of ratings of \<open>s\<close>. If \<open>s\<close>
  has no rating, its \<open>average_rating\<close> is 0 (and \<open>total_ratings\<close> is 0). Otherwise its
  \<open>average_rating\<close> is the \<^verbatim>\<open>numeric\<close> quotient of the sum of the ratings of \<open>s\<close> by their
  number, and with the ratings of the table between 1 and 5 (the table's \<^verbatim>\<open>CHECK\<close>) it
  differs from the arithmetic mean by at most half a unit of the 16th decimal.
\<close>

theorem store_ratings_aggregate:
  assumes "stores_pkey (stores d)"
  shows "set (map sr_id (store_ratings d)) = set (map s_id (stores d)) \<and>
         distinct (map sr_id (store_ratings d)) \<and>
         (s \<in> set (stores d) \<longrightarrow>
            (\<exists>row. filter (\<lambda>v. sr_id v = s_id s) (store_ratings d) = [row] \<and>
               total_ratings row = length (ratings_of d (s_id s)) \<and>
               (ratings_of d (s_id s) = [] \<longrightarrow> average_rating row = 0) \<and>
               (ratings_of d (s_id s) \<noteq> [] \<longrightarrow>
                  average_rating row =
                    numeric_div (sum_list (ratings_of d (s_id s)))
                                (int (length (ratings_of d (s_id s)))) \<and>
                  (list_all ratings_rating_check (ratings d) \<longrightarrow>
                     \<bar>average_rating row -
                      of_int (sum_list (ratings_of d (s_id s))) /
                      of_int (int (length (ratings_of d (s_id s))))\<bar> \<le> 1 / (2 * 10 ^ 16)))))"
proof -
  let ?j = "left_join (stores d) (ratings d)"
  let ?xs = "ratings_of d (s_id s)"
  from assms have d: "distinct (map s_id (stores d))" by (simp add: stores_pkey_def)
  note rows = view_rows_of_stores [OF d]
  have one: "\<exists>row. filter (\<lambda>v. sr_id v = s_id s) (store_ratings d) = [row] \<and>
               total_ratings row = length ?xs \<and>
               (?xs = [] \<longrightarrow> average_rating row = 0) \<and>
               (?xs \<noteq> [] \<longrightarrow>
                  average_rating row = numeric_div (sum_list ?xs) (int (length ?xs)) \<and>
                  (list_all ratings_rating_check (ratings d) \<longrightarrow>
                     \<bar>average_rating row - of_int (sum_list ?xs) / of_int (int (length ?xs))\<bar>
                       \<le> 1 / (2 * 10 ^ 16)))"
    if s: "s \<in> set (stores d)"
  proof -
    let ?row = "store_ratings_group ?j (group_key s)"
    have sel: "(\<lambda>v. sr_id v = s_id s) \<circ> store_ratings_group ?j = (\<lambda>k. fst k = s_id s)"
      by (auto simp: fun_eq_iff store_ratings_group_def Let_def)
    have 1: "filter (\<lambda>v. sr_id v = s_id s) (store_ratings d) = [?row]"
      by (simp add: store_ratings_def Let_def filter_map sel keys_of_store[OF d s])
    have 2: "total_ratings ?row = length ?xs"
      by (simp add: store_ratings_group_def Let_def filter_left_join_self[OF d s]
          count_join_rows ratings_of_def split: prod.splits)
    have avg: "average_rating ?row =
                 (if ?xs = [] then 0 else numeric_div (sum_list ?xs) (int (length ?xs)))"
      by (simp add: store_ratings_group_def Let_def filter_left_join_self[OF d s]
          avg_join_rows ratings_of_def coalesce_def split: prod.splits)
    have 3: "?xs = [] \<longrightarrow> average_rating ?row = 0"
      by (simp add: avg)
    have 4: "average_rating ?row = numeric_div (sum_list ?xs) (int (length ?xs))"
      if "?xs \<noteq> []"
      using that by (simp add: avg)
    have 5: "\<bar>average_rating ?row - of_int (sum_list ?xs) / of_int (int (length ?xs))\<bar>
               \<le> 1 / (2 * 10 ^ 16)"
      if ne: "?xs \<noteq> []" and ck: "list_all ratings_rating_check (ratings d)"
    proof -
      from ck have "list_all (\<lambda>x. 1 \<le> x \<and> x \<le> 5) ?xs"
        by (simp add: list_all_iff ratings_of_def ratings_rating_check_def)
      from avg_within_rounding [OF ne this] show ?thesis
        by (simp only: 4 [OF ne])
    qed
    from 1 2 3 4 5 show ?thesis by blast
  qed
  from rows one show ?thesis by blast
qed

theorem store_ratings_aggregate_witness:
  "stores_pkey (stores example_db_three) \<and>
   bakery \<in> set (stores example_db_three) \<and> bookshop \<in> set (stores example_db_three) \<and>
   list_all ratings_rating_check (ratings example_db_three) \<and>
   ratings_of example_db_three 10 = [4, 5, 5] \<and> ratings_of example_db_three 11 = [] \<and>
   set (map sr_id (store_ratings example_db_three)) = {10, 11} \<and>
   (\<exists>row. filter (\<lambda>v. sr_id v = 10) (store_ratings example_db_three) = [row] \<and>
          total_ratings row = 3 \<and>
          average_rating row = 46666666666666667 / 10000000000000000 \<and>
          \<bar>average_rating row - 14 / 3\<bar> \<le> 1 / (2 * 10 ^ 16)) \<and>
   (\<exists>row. filter (\<lambda>v. sr_id v = 11) (store_ratings example_db_three) = [row] \<and>
          total_ratings row = 0 \<and> average_rating row = 0)"
proof -
  have tabs: "stores example_db_three = [bakery, bookshop]"
    "ratings example_db_three = [alice_rating, carol_rating, bob_rating]"
    by (simp_all add: example_db_three_def example_db_def)
  have pk: "stores_pkey (stores example_db_three)"
    by (simp add: stores_pkey_def tabs bakery_def bookshop_def)
  have a: "bakery \<in> set (stores example_db_three)"
    and b: "bookshop \<in> set (stores example_db_three)"
    by (simp_all add: tabs)
  have ck: "list_all ratings_rating_check (ratings example_db_three)"
    by (simp add: tabs ratings_rating_check_def alice_rating_def carol_rating_def bob_rating_def)
  have ra: "ratings_of example_db_three 10 = [4, 5, 5]"
    and rb: "ratings_of example_db_three 11 = []"
    by (simp_all add: ratings_of_def tabs alice_rating_def carol_rating_def bob_rating_def)
  have ia: "s_id bakery = 10" and ib: "s_id bookshop = 11"
    by (simp_all add: bakery_def bookshop_def)
  have nd: "numeric_div 14 3 = 46666666666666667 / 10000000000000000"
    by (simp add: numeric_div_def select_div_scale_def small_weight small_first_digit)
  note A = store_ratings_aggregate [OF pk, of bakery]
  note B = store_ratings_aggregate [OF pk, of bookshop]
  have ids: "set (map sr_id (store_ratings example_db_three)) = {10, 11}"
    using conjunct1 [OF A] by (simp add: tabs ia ib)
  from mp [OF conjunct2 [OF conjunct2 [OF A]] a]
  have ea: "\<exists>row. filter (\<lambda>v. sr_id v = 10) (store_ratings example_db_three) = [row] \<and>
          total_ratings row = 3 \<and>
          average_rating row = 46666666666666667 / 10000000000000000 \<and>
          \<bar>average_rating row - 14 / 3\<bar> \<le> 1 / (2 * 10 ^ 16)"
    using ck by (auto simp: ra ia nd)
  from mp [OF conjunct2 [OF conjunct2 [OF B]] b]
  have eb: "\<exists>row. filter (\<lambda>v. sr_id v = 11) (store_ratings example_db_three) = [row] \<and>
          total_ratings row = 0 \<and> average_rating row = 0"
    by (auto simp: rb ib)
  show ?thesis
    by (intro conjI pk a b ck ra rb ids ea eb)
qed

section \<open>One rating per user and store\<close>


lemma ratings_violation_None_key:
  "ratings_violation d news rows = None \<Longrightarrow> ratings_user_id_store_id_key rows"
  by (simp add: ratings_violation_def split: if_splits)


lemma run_stmt_key:
  assumes "ratings_user_id_store_id_key (ratings d)"
  shows "ratings_user_id_store_id_key (ratings (snd (exec (run_stmt s) d)))"
proof (cases s)
  case (Insert c r)
  with assms show ?thesis
    by (auto simp: exec_def insert_ratings_def dest: ratings_violation_None_key split: option.splits)
next
  case (Update t c cond assign)
  with assms show ?thesis
    by (auto simp: exec_def update_ratings_def Let_def dest: ratings_violation_None_key split: option.splits)
next
  case (Delete c cond)
  with assms show ?thesis
    by (simp add: exec_def delete_ratings_def ratings_user_id_store_id_key_def distinct_map_filter)
qed


lemma run_key:
  "ratings_user_id_store_id_key (ratings d) \<Longrightarrow> ratings_user_id_store_id_key (ratings (run ss d))"
  by (induction ss arbitrary: d) (simp_all add: run_stmt_key)


lemma distinct_map_at_most_one:
  "distinct (map f xs) \<Longrightarrow> length (filter (\<lambda>x. f x = k) xs) \<le> 1"
proof (induction xs)
  case Nil then show ?case by simp
next
  case (Cons a xs)
  show ?case
  proof (cases "f a = k")
    case True
    with Cons.prems have "\<forall>x\<in>set xs. f x \<noteq> k" by (auto simp: image_iff)
    then have "filter (\<lambda>x. f x = k) xs = []" by (simp add: filter_empty_conv)
    with True show ?thesis by simp
  next
    case False
    with Cons show ?thesis by simp
  qed
qed


lemma existing_pair_not_key:
  assumes "list_ex (\<lambda>x. r_user_id x = r_user_id r \<and> r_store_id x = r_store_id r) rows"
  shows "\<not> ratings_user_id_store_id_key (rows @ [r])"
proof -
  from assms obtain x where x: "x \<in> set rows" "r_user_id x = r_user_id r"
      "r_store_id x = r_store_id r"
    unfolding list_ex_iff by blast
  have "(r_user_id r, r_store_id r) = (\<lambda>x. (r_user_id x, r_store_id x)) x"
    using x(2,3) by simp
  then have "(r_user_id r, r_store_id r) \<in> (\<lambda>x. (r_user_id x, r_store_id x)) ` set rows"
    using x(1) by (rule image_eqI)
  then show ?thesis
    by (simp add: ratings_user_id_store_id_key_def)
qed

lemma insert_existing_pair:
  assumes "list_ex (\<lambda>x. r_user_id x = r_user_id r \<and> r_store_id x = r_store_id r) (ratings d)"
  shows "\<exists>e. exec (insert_ratings c r) d = (Some e, d) \<and>
           (ratings_insert_policy c r \<and> ratings_rating_check r \<longrightarrow>
              e \<in> {unique_violation ''ratings_pkey'', unique_violation ''ratings_user_id_store_id_key''})"
proof -
  note nk = existing_pair_not_key [OF assms]
  show ?thesis
  proof (cases "ratings_insert_policy c r")
    case False
    then have "exec (insert_ratings c r) d = (Some (insufficient_privilege ''ratings''), d)"
      by (simp add: exec_def insert_ratings_def)
    with False show ?thesis by blast
  next
    case pol: True
    show ?thesis
    proof (cases "ratings_rating_check r")
      case False
      then have "ratings_violation d [r] (ratings d @ [r]) = Some (check_violation ''ratings_rating_check'')"
        by (simp add: ratings_violation_def)
      with pol have "exec (insert_ratings c r) d = (Some (check_violation ''ratings_rating_check''), d)"
        by (simp add: exec_def insert_ratings_def)
      with False show ?thesis by blast
    next
      case chk: True
      show ?thesis
      proof (cases "distinct (map r_id (ratings d @ [r]))")
        case False
        with chk have "ratings_violation d [r] (ratings d @ [r]) = Some (unique_violation ''ratings_pkey'')"
          by (simp add: ratings_violation_def)
        with pol have "exec (insert_ratings c r) d = (Some (unique_violation ''ratings_pkey''), d)"
          by (simp add: exec_def insert_ratings_def)
        then show ?thesis by blast
      next
        case True
        with chk nk have "ratings_violation d [r] (ratings d @ [r]) =
            Some (unique_violation ''ratings_user_id_store_id_key'')"
          by (simp add: ratings_violation_def)
        with pol have "exec (insert_ratings c r) d =
            (Some (unique_violation ''ratings_user_id_store_id_key''), d)"
          by (simp add: exec_def insert_ratings_def)
        then show ?thesis by blast
      qed
    qed
  qed
qed


text \<open>
  C2. If the table has at most one row for every pair (user, store), it has so after any
  sequence of inserts, updates and deletes by any callers; the empty table has. An insert
  of a row whose pair the table already holds fails and leaves the database as it was; if
  the row passes the insert policy and the check on \<open>rating\<close>, the error is the
  violation of a unique index.
\<close>


theorem ratings_unique_user_store:
  "(ratings_user_id_store_id_key (ratings d) \<longrightarrow>
      length (filter (\<lambda>x. (r_user_id x, r_store_id x) = (u, s)) (ratings (run ss d))) \<le> 1) \<and>
   (list_ex (\<lambda>x. r_user_id x = r_user_id r \<and> r_store_id x = r_store_id r) (ratings d) \<longrightarrow>
      (\<exists>e. exec (insert_ratings c r) d = (Some e, d) \<and>
           (ratings_insert_policy c r \<and> ratings_rating_check r \<longrightarrow>
              e \<in> {unique_violation ''ratings_pkey'',
                   unique_violation ''ratings_user_id_store_id_key''})))"
proof (intro conjI impI)
  assume "ratings_user_id_store_id_key (ratings d)"
  then have "ratings_user_id_store_id_key (ratings (run ss d))" by (rule run_key)
  then show "length (filter (\<lambda>x. (r_user_id x, r_store_id x) = (u, s)) (ratings (run ss d))) \<le> 1"
    unfolding ratings_user_id_store_id_key_def by (rule distinct_map_at_most_one)
next
  assume "list_ex (\<lambda>x. r_user_id x = r_user_id r \<and> r_store_id x = r_store_id r) (ratings d)"
  then show "\<exists>e. exec (insert_ratings c r) d = (Some e, d) \<and>
           (ratings_insert_policy c r \<and> ratings_rating_check r \<longrightarrow>
              e \<in> {unique_violation ''ratings_pkey'',
                   unique_violation ''ratings_user_id_store_id_key''})"
    by (rule insert_existing_pair)
qed

theorem ratings_unique_user_store_witness:
  "ratings_user_id_store_id_key (ratings example_db) \<and>
   list_ex (\<lambda>x. r_user_id x = r_user_id second_rating \<and> r_store_id x = r_store_id second_rating)
     (ratings example_db) \<and>
   ratings_insert_policy (authenticated 1) second_rating \<and> ratings_rating_check second_rating \<and>
   length (filter (\<lambda>x. (r_user_id x, r_store_id x) = (1, 10))
     (ratings (run [Insert (authenticated 1) second_rating,
                    Delete (authenticated 1) (\<lambda>r. r_store_id r = 10),
                    Insert (authenticated 1) second_rating,
                    Update 140 (authenticated 1) (\<lambda>r. True) (\<lambda>r. r\<lparr>rating := 3\<rparr>)]
                example_db))) \<le> 1 \<and>
   (\<exists>e. exec (insert_ratings (authenticated 1) second_rating) example_db = (Some e, example_db) \<and>
        e \<in> {unique_violation ''ratings_pkey'', unique_violation ''ratings_user_id_store_id_key''})"
proof -
  have k: "ratings_user_id_store_id_key (ratings example_db)"
    by (simp add: ratings_user_id_store_id_key_def example_db_def alice_rating_def
        carol_rating_def)
  have p: "list_ex (\<lambda>x. r_user_id x = r_user_id second_rating \<and>
                        r_store_id x = r_store_id second_rating) (ratings example_db)"
    by (simp add: example_db_def alice_rating_def carol_rating_def second_rating_def)
  have q: "ratings_insert_policy (authenticated 1) second_rating \<and>
           ratings_rating_check second_rating"
    by (simp add: ratings_insert_policy_def ratings_rating_check_def second_rating_def)
  note T = ratings_unique_user_store
         [of example_db 1 10
             "[Insert (authenticated 1) second_rating,
               Delete (authenticated 1) (\<lambda>r. r_store_id r = 10),
               Insert (authenticated 1) second_rating,
               Update 140 (authenticated 1) (\<lambda>r. True) (\<lambda>r. r\<lparr>rating := 3\<rparr>)]"
             second_rating "authenticated 1"]
  note L = mp [OF conjunct1 [OF T] k]
  from mp [OF conjunct2 [OF T] p] obtain e where
    e1: "exec (insert_ratings (authenticated 1) second_rating) example_db = (Some e, example_db)"
    and e2: "ratings_insert_policy (authenticated 1) second_rating \<and>
             ratings_rating_check second_rating \<longrightarrow>
             e \<in> {unique_violation ''ratings_pkey'', unique_violation ''ratings_user_id_store_id_key''}"
    by (elim exE conjE)
  from mp [OF e2 q] e1 have E: "\<exists>e. exec (insert_ratings (authenticated 1) second_rating) example_db = (Some e, example_db) \<and>
        e \<in> {unique_violation ''ratings_pkey'', unique_violation ''ratings_user_id_store_id_key''}"
    by (intro exI conjI)
  show ?thesis
    by (intro conjI k p conjunct1 [OF q] conjunct2 [OF q] L E)
qed


section \<open>Registration of an identity\<close>

lemma insert_profiles_Inr:
  "insert_profiles p d = Inr d' \<Longrightarrow>
     d' = d\<lparr>profiles := profiles d @ [p]\<rparr> \<and> distinct (map p_id (profiles d @ [p]))"
  by (auto simp: insert_profiles_def profiles_violation_def split: option.splits if_splits)

lemma insert_user_roles_Inr:
  "insert_user_roles r d = Inr d' \<Longrightarrow> d' = d\<lparr>user_roles := user_roles d @ [r]\<rparr>"
  by (auto simp: insert_user_roles_def split: option.splits)

lemma filter_fresh_key:
  "distinct (map f (xs @ [x])) \<Longrightarrow> filter (\<lambda>y. f y = f x) (xs @ [x]) = [x]"
  by (auto simp: filter_empty_conv image_iff)

text \<open>
  C3. The insert of an identity into \<^verbatim>\<open>auth.users\<close> with its trigger either fails, and then
  the database is as before (no identity, no profile, no role), or succeeds, and then it
  has added the identity, exactly one profile row (id of the identity, name from the
  metadata or \<^verbatim>\<open>Unknown\<close>, address from the metadata or the empty string, email of the identity;
  afterwards the only profile with that id) and exactly one \<^verbatim>\<open>user_roles\<close> row, with role
  \<open>normal_user\<close>, and nothing else.
\<close>

theorem registration_trigger:
  "case insert_auth_users ev NEW d of
     Inl err \<Rightarrow> exec (insert_auth_users ev NEW) d = (Some err, d)
   | Inr d' \<Rightarrow>
       exec (insert_auth_users ev NEW) d = (None, d') \<and>
       auth_users d' = auth_users d @ [NEW] \<and>
       (\<exists>e. au_email NEW = Some e \<and>
            profiles d' = profiles d @
              [\<lparr> created_at = now ev, updated_at = now ev, p_id = au_id NEW,
                 p_name = (case json_text (raw_user_meta_data NEW) ''name'' of
                             None \<Rightarrow> ''Unknown'' | Some n \<Rightarrow> n),
                 p_email = e,
                 p_address = (case json_text (raw_user_meta_data NEW) ''address'' of
                                None \<Rightarrow> [] | Some a \<Rightarrow> a) \<rparr>]) \<and>
       length (filter (\<lambda>p. p_id p = au_id NEW) (profiles d')) = 1 \<and>
       user_roles d' = user_roles d @
         [\<lparr> ur_id = gen_random_uuid ev, ur_user_id = au_id NEW, ur_role = normal_user,
            ur_created_at = now ev \<rparr>] \<and>
       stores d' = stores d \<and> ratings d' = ratings d"
proof (cases "insert_auth_users ev NEW d")
  case (Inl err)
  then show ?thesis by (simp add: exec_def)
next
  case (Inr d')
  let ?d0 = "d\<lparr>auth_users := auth_users d @ [NEW]\<rparr>"
  from Inr have h: "handle_new_user ev NEW ?d0 = Inr d'"
    by (simp add: insert_auth_users_def split: if_splits)
  then obtain e where e: "au_email NEW = Some e"
    by (cases "au_email NEW") (simp_all add: handle_new_user_def)
  let ?p = "\<lparr> created_at = now ev, updated_at = now ev, p_id = au_id NEW,
                 p_name = coalesce (json_text (raw_user_meta_data NEW) ''name'') ''Unknown'',
                 p_email = e,
                 p_address = coalesce (json_text (raw_user_meta_data NEW) ''address'') [] \<rparr>"
  let ?r = "\<lparr> ur_id = gen_random_uuid ev, ur_user_id = au_id NEW, ur_role = normal_user,
            ur_created_at = now ev \<rparr>"
  from h e obtain d1 where d1: "insert_profiles ?p ?d0 = Inr d1" and d2: "insert_user_roles ?r d1 = Inr d'"
    by (auto simp: handle_new_user_def split: sum.splits)
  from insert_profiles_Inr[OF d1] have p1: "d1 = ?d0\<lparr>profiles := profiles d @ [?p]\<rparr>"
    and dist: "distinct (map p_id (profiles d @ [?p]))" by simp_all
  from insert_user_roles_Inr[OF d2] p1 have p2: "d' = ?d0\<lparr>profiles := profiles d @ [?p], user_roles := user_roles d @ [?r]\<rparr>"
    by simp
  have one: "filter (\<lambda>y. p_id y = au_id NEW) (profiles d @ [?p]) = [?p]"
    using filter_fresh_key[OF dist] by simp
  have "length (filter (\<lambda>p. p_id p = au_id NEW) (profiles d')) = 1"
    using one by (simp add: p2)
  with Inr e p2 show ?thesis
    by (simp add: exec_def coalesce_def)
qed

theorem registration_trigger_witness:
  "\<exists>d'. insert_auth_users example_env jane example_db = Inr d' \<and>
        exec (insert_auth_users example_env jane) example_db = (None, d') \<and>
        auth_users d' = auth_users example_db @ [jane] \<and>
        profiles d' = profiles example_db @
          [\<lparr> created_at = 200, updated_at = 200, p_id = 4, p_name = ''Jane'',
             p_email = ''jane@example.com'', p_address = [] \<rparr>] \<and>
        length (filter (\<lambda>p. p_id p = 4) (profiles d')) = 1 \<and>
        user_roles d' = user_roles example_db @
          [\<lparr> ur_id = 34, ur_user_id = 4, ur_role = normal_user, ur_created_at = 200 \<rparr>]"
proof -
  have ids: "map au_id (auth_users example_db) = [1, 2, 3]"
            "map p_id (profiles example_db) = [1, 2, 3]"
            "map ur_id (user_roles example_db) = [31, 32, 33]"
            "map (\<lambda>r. (ur_user_id r, ur_role r)) (user_roles example_db) =
               [(1, normal_user), (2, store_owner), (3, system_admin)]"
    by (simp_all add: example_db_def alice_def bob_def carol_def profile_of_def)
  have j: "au_id jane = 4" "au_email jane = Some ''jane@example.com''"
          "json_text (raw_user_meta_data jane) ''name'' = Some ''Jane''"
          "json_text (raw_user_meta_data jane) ''address'' = None"
    by (simp_all add: jane_def json_text_def)
  have ev: "now example_env = 200" "gen_random_uuid example_env = 34"
    by (simp_all add: example_env_def)
  have "\<exists>d'. insert_auth_users example_env jane example_db = Inr d'"
    by (simp add: insert_auth_users_def handle_new_user_def insert_profiles_def
        profiles_violation_def insert_user_roles_def user_roles_violation_def
        user_roles_user_id_role_key_def ids j ev)
  then obtain d' where ok: "insert_auth_users example_env jane example_db = Inr d'" ..
  have nf: "filter (\<lambda>p. p_id p = 4) (profiles example_db) = []"
    by (simp add: example_db_def profile_of_def alice_def bob_def carol_def)
  from registration_trigger [of example_env jane example_db]
  show ?thesis
    by (simp add: ok j ev nf)
qed

section \<open>Visibility of profiles\<close>

lemma profiles_select_policy_user:
  "\<not> has_role d (Some C) system_admin \<Longrightarrow>
   profiles_select_policy d (authenticated C) row = (p_id row = C)"
  by (auto simp: profiles_select_policy_def)

lemma select_profiles_user:
  assumes "\<not> has_role d (Some C) system_admin"
  shows "select_profiles (authenticated C) cond d =
         filter cond (filter (\<lambda>p. p_id p = C) (profiles d))"
proof -
  have "filter (profiles_select_policy d (authenticated C)) (profiles d) =
        filter (\<lambda>p. p_id p = C) (profiles d)"
    by (rule filter_cong [OF refl]) (simp add: profiles_select_policy_user [OF assms])
  then show ?thesis by (simp add: select_profiles_def)
qed

text \<open>
  C4. For a signed-in caller \<open>C\<close> without the role \<open>system_admin\<close>: a select on
  \<^verbatim>\<open>profiles\<close> never returns a row whose id is not \<open>C\<close>; a query whose condition only rows of
  others meet returns the empty list (a select has no error result); and two databases
  with the same \<^verbatim>\<open>user_roles\<close> and the same rows of \<open>C\<close> give \<open>C\<close> the same result, whatever
  the profiles of the others hold.
\<close>

theorem profiles_select_isolation:
  assumes "\<not> has_role d (Some C) system_admin"
  shows "(p_id R \<noteq> C \<longrightarrow> R \<notin> set (select_profiles (authenticated C) cond d)) \<and>
         ((\<forall>p \<in> set (profiles d). cond p \<longrightarrow> p_id p \<noteq> C) \<longrightarrow>
            select_profiles (authenticated C) cond d = []) \<and>
         (user_roles d' = user_roles d \<and>
          filter (\<lambda>p. p_id p = C) (profiles d') = filter (\<lambda>p. p_id p = C) (profiles d) \<longrightarrow>
            select_profiles (authenticated C) cond d' = select_profiles (authenticated C) cond d)"
proof (intro conjI impI)
  assume "p_id R \<noteq> C"
  then show "R \<notin> set (select_profiles (authenticated C) cond d)"
    by (simp add: select_profiles_user [OF assms])
next
  assume "\<forall>p \<in> set (profiles d). cond p \<longrightarrow> p_id p \<noteq> C"
  then show "select_profiles (authenticated C) cond d = []"
    by (auto simp: select_profiles_user [OF assms] filter_empty_conv)
next
  assume h: "user_roles d' = user_roles d \<and>
          filter (\<lambda>p. p_id p = C) (profiles d') = filter (\<lambda>p. p_id p = C) (profiles d)"
  then have "has_role d' (Some C) system_admin = has_role d (Some C) system_admin"
    by (simp add: has_role_def)
  with assms have "\<not> has_role d' (Some C) system_admin"
    by simp
  from select_profiles_user [OF this] select_profiles_user [OF assms] h
  show "select_profiles (authenticated C) cond d' = select_profiles (authenticated C) cond d"
    by simp
qed

theorem profiles_select_isolation_witness:
  "\<not> has_role example_db (Some 1) system_admin \<and>
   profile_of bob ''Bob'' ''bob@example.com'' ''2 Main Street'' \<in> set (profiles example_db) \<and>
   p_id (profile_of bob ''Bob'' ''bob@example.com'' ''2 Main Street'') \<noteq> 1 \<and>
   profile_of bob ''Bob'' ''bob@example.com'' ''2 Main Street''
     \<notin> set (select_profiles (authenticated 1) (\<lambda>p. True) example_db) \<and>
   filter (\<lambda>p. p_id p = 2) (profiles example_db) =
     [profile_of bob ''Bob'' ''bob@example.com'' ''2 Main Street''] \<and>
   select_profiles (authenticated 1) (\<lambda>p. p_id p = 2) example_db = [] \<and>
   user_roles example_db_changed = user_roles example_db \<and>
   filter (\<lambda>p. p_id p = 1) (profiles example_db_changed) =
     filter (\<lambda>p. p_id p = 1) (profiles example_db) \<and>
   profiles example_db_changed \<noteq> profiles example_db \<and>
   select_profiles (authenticated 1) (\<lambda>p. True) example_db_changed =
     select_profiles (authenticated 1) (\<lambda>p. True) example_db"
proof -
  let ?R = "profile_of bob ''Bob'' ''bob@example.com'' ''2 Main Street''"
  have a: "\<not> has_role example_db (Some 1) system_admin"
    by (simp add: has_role_def example_db_def)
  have m: "?R \<in> set (profiles example_db)"
    by (simp add: example_db_def)
  have i: "p_id ?R \<noteq> 1"
    by (simp add: profile_of_def bob_def)
  have q: "\<forall>p \<in> set (profiles example_db). p_id p = 2 \<longrightarrow> p_id p \<noteq> 1"
    by simp
  have f: "filter (\<lambda>p. p_id p = 2) (profiles example_db) = [?R]"
    by (simp add: example_db_def profile_of_def alice_def bob_def carol_def)
  have r: "user_roles example_db_changed = user_roles example_db"
    by (simp add: example_db_changed_def)
  have o: "filter (\<lambda>p. p_id p = 1) (profiles example_db_changed) =
           filter (\<lambda>p. p_id p = 1) (profiles example_db)"
    by (simp add: example_db_changed_def example_db_def profile_of_def alice_def bob_def
        carol_def)
  have n: "profiles example_db_changed \<noteq> profiles example_db"
    by (simp add: example_db_changed_def example_db_def profile_of_def)
  note T1 = profiles_select_isolation [OF a, of ?R "\<lambda>p. True" example_db_changed]
  note T2 = profiles_select_isolation [OF a, of ?R "\<lambda>p. p_id p = 2" example_db_changed]
  have c1: "?R \<notin> set (select_profiles (authenticated 1) (\<lambda>p. True) example_db)"
    by (rule mp [OF conjunct1 [OF T1] i])
  have c2: "select_profiles (authenticated 1) (\<lambda>p. p_id p = 2) example_db = []"
    by (rule mp [OF conjunct1 [OF conjunct2 [OF T2]] q])
  have c3: "select_profiles (authenticated 1) (\<lambda>p. True) example_db_changed =
            select_profiles (authenticated 1) (\<lambda>p. True) example_db"
    by (rule mp [OF conjunct2 [OF conjunct2 [OF T1]] conjI [OF r o]])
  show ?thesis
    by (intro conjI a m i c1 f c2 r o n c3)
qed

section \<open>The timestamp trigger\<close>

lemma update_rows_map:
  "update_rows t target assign rows =
   map (\<lambda>OLD. if target OLD then (assign OLD)\<lparr>updated_at := t\<rparr> else OLD) rows"
  by (simp add: update_rows_def update_updated_at_column_def)

lemma update_rows_not_earlier:
  "list_all2 (\<lambda>OLD NEW. updated_at OLD \<le> t \<longrightarrow> updated_at OLD \<le> updated_at NEW)
     rows (update_rows t target assign rows)"
  by (simp add: update_rows_map list_all2_map2 list_all2_same)

lemma update_profiles_Inr:
  "update_profiles t c cond assign d = Inr d' \<Longrightarrow>
   d' = d\<lparr>profiles := update_rows t (\<lambda>p. cond p \<and> profiles_update_policy d c p) assign
                         (profiles d)\<rparr>"
  by (simp add: update_profiles_def Let_def split: if_splits option.splits)

lemma update_stores_Inr:
  "update_stores t c cond assign d = Inr d' \<Longrightarrow>
   d' = d\<lparr>stores := update_rows t (\<lambda>s. cond s \<and> stores_update_policy d c s) assign
                       (stores d)\<rparr>"
  by (simp add: update_stores_def Let_def split: if_splits option.splits)

lemma update_ratings_Inr:
  "update_ratings t c cond assign d = Inr d' \<Longrightarrow>
   d' = d\<lparr>ratings := update_rows t (\<lambda>r. cond r \<and> ratings_update_policy c r) assign
                        (ratings d)\<rparr>"
  by (simp add: update_ratings_def Let_def split: if_splits option.splits)

text \<open>
  C8, as amended. An update of profiles, stores or ratings that succeeds at time \<open>t\<close>
  replaces every row it targets (the statement's condition and the update policy) by the
  caller's assignment with \<open>updated_at\<close> set to \<open>t\<close>, whatever the assignment gave that
  column, and leaves every other row and table as it was. A row's \<open>updated_at\<close> does not
  decrease if it was not later than \<open>t\<close> before.
\<close>

theorem updated_at_trigger:
  "(update_profiles t c condp assignp d = Inr d' \<longrightarrow>
      d' = d\<lparr>profiles :=
                map (\<lambda>OLD. if condp OLD \<and> profiles_update_policy d c OLD
                            then (assignp OLD)\<lparr>updated_at := t\<rparr> else OLD) (profiles d)\<rparr> \<and>
      list_all2 (\<lambda>OLD NEW. updated_at OLD \<le> t \<longrightarrow> updated_at OLD \<le> updated_at NEW)
        (profiles d) (profiles d')) \<and>
   (update_stores t c conds assigns d = Inr d' \<longrightarrow>
      d' = d\<lparr>stores :=
                map (\<lambda>OLD. if conds OLD \<and> stores_update_policy d c OLD
                            then (assigns OLD)\<lparr>updated_at := t\<rparr> else OLD) (stores d)\<rparr> \<and>
      list_all2 (\<lambda>OLD NEW. updated_at OLD \<le> t \<longrightarrow> updated_at OLD \<le> updated_at NEW)
        (stores d) (stores d')) \<and>
   (update_ratings t c condr assignr d = Inr d' \<longrightarrow>
      d' = d\<lparr>ratings :=
                map (\<lambda>OLD. if condr OLD \<and> ratings_update_policy c OLD
                            then (assignr OLD)\<lparr>updated_at := t\<rparr> else OLD) (ratings d)\<rparr> \<and>
      list_all2 (\<lambda>OLD NEW. updated_at OLD \<le> t \<longrightarrow> updated_at OLD \<le> updated_at NEW)
        (ratings d) (ratings d'))"
proof (intro conjI impI)
  assume "update_profiles t c condp assignp d = Inr d'"
  from update_profiles_Inr [OF this]
  have e: "d' = d\<lparr>profiles := update_rows t (\<lambda>p. condp p \<and> profiles_update_policy d c p)
                                 assignp (profiles d)\<rparr>" .
  then show "d' = d\<lparr>profiles :=
                map (\<lambda>OLD. if condp OLD \<and> profiles_update_policy d c OLD
                            then (assignp OLD)\<lparr>updated_at := t\<rparr> else OLD) (profiles d)\<rparr>"
    by (simp add: update_rows_map)
  have "profiles d' = update_rows t (\<lambda>p. condp p \<and> profiles_update_policy d c p)
                        assignp (profiles d)"
    by (simp add: e)
  then show "list_all2 (\<lambda>OLD NEW. updated_at OLD \<le> t \<longrightarrow> updated_at OLD \<le> updated_at NEW)
        (profiles d) (profiles d')"
    by (simp only: update_rows_not_earlier)
next
  assume "update_stores t c conds assigns d = Inr d'"
  from update_stores_Inr [OF this]
  have e: "d' = d\<lparr>stores := update_rows t (\<lambda>s. conds s \<and> stores_update_policy d c s)
                               assigns (stores d)\<rparr>" .
  then show "d' = d\<lparr>stores :=
                map (\<lambda>OLD. if conds OLD \<and> stores_update_policy d c OLD
                            then (assigns OLD)\<lparr>updated_at := t\<rparr> else OLD) (stores d)\<rparr>"
    by (simp add: update_rows_map)
  have "stores d' = update_rows t (\<lambda>s. conds s \<and> stores_update_policy d c s)
                      assigns (stores d)"
    by (simp add: e)
  then show "list_all2 (\<lambda>OLD NEW. updated_at OLD \<le> t \<longrightarrow> updated_at OLD \<le> updated_at NEW)
        (stores d) (stores d')"
    by (simp only: update_rows_not_earlier)
next
  assume "update_ratings t c condr assignr d = Inr d'"
  from update_ratings_Inr [OF this]
  have e: "d' = d\<lparr>ratings := update_rows t (\<lambda>r. condr r \<and> ratings_update_policy c r)
                                assignr (ratings d)\<rparr>" .
  then show "d' = d\<lparr>ratings :=
                map (\<lambda>OLD. if condr OLD \<and> ratings_update_policy c OLD
                            then (assignr OLD)\<lparr>updated_at := t\<rparr> else OLD) (ratings d)\<rparr>"
    by (simp add: update_rows_map)
  have "ratings d' = update_rows t (\<lambda>r. condr r \<and> ratings_update_policy c r)
                       assignr (ratings d)"
    by (simp add: e)
  then show "list_all2 (\<lambda>OLD NEW. updated_at OLD \<le> t \<longrightarrow> updated_at OLD \<le> updated_at NEW)
        (ratings d) (ratings d')"
    by (simp only: update_rows_not_earlier)
qed

text \<open>
  The claim as stated fails. Alice inserts a rating of the bookshop at time 130 and gives
  \<open>updated_at\<close> the value 900 herself: no trigger fires on insert, so 900 is stored. Her
  update at time 140 then sets \<open>updated_at\<close> to 140, which is less than before.
\<close>

theorem updated_at_decreases_counterexample:
  "insert_ratings (authenticated 1) future_rating example_db = Inr example_db_future \<and>
   update_ratings 140 (authenticated 1) of_bookshop five_stars example_db_future =
     Inr (example_db\<lparr>ratings :=
            [alice_rating, carol_rating, future_rating\<lparr>rating := 5, updated_at := 140\<rparr>]\<rparr>) \<and>
   updated_at (future_rating\<lparr>rating := 5, updated_at := 140\<rparr>) < updated_at future_rating"
proof -
  have ids: "map au_id (auth_users example_db) = [1, 2, 3]"
            "map s_id (stores example_db) = [10, 11]"
    by (simp_all add: example_db_def alice_def bob_def carol_def bakery_def bookshop_def)
  have rs: "ratings example_db = [alice_rating, carol_rating]"
    by (simp add: example_db_def)
  have ins: "insert_ratings (authenticated 1) future_rating example_db = Inr example_db_future"
    by (simp add: insert_ratings_def ratings_insert_policy_def ratings_violation_def
        ratings_rating_check_def ratings_user_id_store_id_key_def ids rs example_db_future_def
        future_rating_def alice_rating_def carol_rating_def)
  have f: "auth_users example_db_future = auth_users example_db"
          "stores example_db_future = stores example_db"
          "ratings example_db_future = [alice_rating, carol_rating, future_rating]"
    by (simp_all add: example_db_future_def)
  have upd: "update_ratings 140 (authenticated 1) of_bookshop five_stars example_db_future =
     Inr (example_db\<lparr>ratings :=
            [alice_rating, carol_rating, future_rating\<lparr>rating := 5, updated_at := 140\<rparr>]\<rparr>)"
    by (simp add: update_ratings_def Let_def written_rows_def update_rows_def
        update_updated_at_column_def ratings_update_policy_def ratings_violation_def
        ratings_rating_check_def ratings_user_id_store_id_key_def ids f of_bookshop_def
        five_stars_def future_rating_def alice_rating_def carol_rating_def
        example_db_future_def)
  have lt: "updated_at (future_rating\<lparr>rating := 5, updated_at := 140\<rparr>) < updated_at future_rating"
    by (simp add: future_rating_def)
  show ?thesis
    by (intro conjI ins upd lt)
qed

theorem updated_at_trigger_witness:
  "update_profiles 140 (authenticated 1) (\<lambda>p. p_id p = 1)
     (\<lambda>p. p\<lparr>p_name := ''Alicia'', updated_at := 5\<rparr>) example_db =
     Inr (example_db\<lparr>profiles :=
            [(profile_of alice ''Alicia'' ''alice@example.com'' ''1 Main Street'')
               \<lparr>updated_at := 140\<rparr>,
             profile_of bob ''Bob'' ''bob@example.com'' ''2 Main Street'',
             profile_of carol ''Carol'' ''carol@example.com'' ''3 Main Street'']\<rparr>) \<and>
   update_stores 140 (authenticated 2) (\<lambda>s. s_id s = 10)
     (\<lambda>s. s\<lparr>s_name := ''Bakery and Cafe'', updated_at := 5\<rparr>) example_db =
     Inr (example_db\<lparr>stores :=
            [bakery\<lparr>s_name := ''Bakery and Cafe'', updated_at := 140\<rparr>, bookshop]\<rparr>) \<and>
   update_ratings 140 (authenticated 1) (\<lambda>r. r_store_id r = 10)
     (\<lambda>r. r\<lparr>rating := 5, updated_at := 999\<rparr>) example_db =
     Inr (example_db\<lparr>ratings := [alice_rating\<lparr>rating := 5, updated_at := 140\<rparr>, carol_rating]\<rparr>) \<and>
   list_all2 (\<lambda>OLD NEW. updated_at OLD \<le> 140 \<longrightarrow> updated_at OLD \<le> updated_at NEW)
     (profiles example_db)
     [(profile_of alice ''Alicia'' ''alice@example.com'' ''1 Main Street'')\<lparr>updated_at := 140\<rparr>,
      profile_of bob ''Bob'' ''bob@example.com'' ''2 Main Street'',
      profile_of carol ''Carol'' ''carol@example.com'' ''3 Main Street''] \<and>
   list_all2 (\<lambda>OLD NEW. updated_at OLD \<le> 140 \<longrightarrow> updated_at OLD \<le> updated_at NEW)
     (stores example_db) [bakery\<lparr>s_name := ''Bakery and Cafe'', updated_at := 140\<rparr>, bookshop] \<and>
   list_all2 (\<lambda>OLD NEW. updated_at OLD \<le> 140 \<longrightarrow> updated_at OLD \<le> updated_at NEW)
     (ratings example_db) [alice_rating\<lparr>rating := 5, updated_at := 140\<rparr>, carol_rating]"
proof -
  let ?dp = "example_db\<lparr>profiles :=
            [(profile_of alice ''Alicia'' ''alice@example.com'' ''1 Main Street'')
               \<lparr>updated_at := 140\<rparr>,
             profile_of bob ''Bob'' ''bob@example.com'' ''2 Main Street'',
             profile_of carol ''Carol'' ''carol@example.com'' ''3 Main Street'']\<rparr>"
  let ?ds = "example_db\<lparr>stores :=
            [bakery\<lparr>s_name := ''Bakery and Cafe'', updated_at := 140\<rparr>, bookshop]\<rparr>"
  let ?dr = "example_db\<lparr>ratings := [alice_rating\<lparr>rating := 5, updated_at := 140\<rparr>, carol_rating]\<rparr>"
  have ids: "map au_id (auth_users example_db) = [1, 2, 3]"
            "map s_id (stores example_db) = [10, 11]"
    by (simp_all add: example_db_def alice_def bob_def carol_def bakery_def bookshop_def)
  have tabs: "ratings example_db = [alice_rating, carol_rating]"
             "stores example_db = [bakery, bookshop]"
             "profiles example_db =
                [profile_of alice ''Alice'' ''alice@example.com'' ''1 Main Street'',
                 profile_of bob ''Bob'' ''bob@example.com'' ''2 Main Street'',
                 profile_of carol ''Carol'' ''carol@example.com'' ''3 Main Street'']"
    by (simp_all add: example_db_def)
  have roles: "\<not> has_role example_db (Some 1) system_admin"
              "\<not> has_role example_db (Some 2) system_admin"
    by (simp_all add: has_role_def example_db_def)
  have p: "update_profiles 140 (authenticated 1) (\<lambda>p. p_id p = 1)
             (\<lambda>p. p\<lparr>p_name := ''Alicia'', updated_at := 5\<rparr>) example_db = Inr ?dp"
    by (simp add: update_profiles_def Let_def written_rows_def update_rows_def
        update_updated_at_column_def profiles_update_policy_def profiles_violation_def
        roles ids tabs profile_of_def alice_def bob_def carol_def)
  have s: "update_stores 140 (authenticated 2) (\<lambda>s. s_id s = 10)
             (\<lambda>s. s\<lparr>s_name := ''Bakery and Cafe'', updated_at := 5\<rparr>) example_db = Inr ?ds"
    by (simp add: update_stores_def Let_def written_rows_def update_rows_def
        update_updated_at_column_def stores_update_policy_def stores_all_policy_def
        stores_violation_def stores_pkey_def roles ids tabs bakery_def bookshop_def)
  have r: "update_ratings 140 (authenticated 1) (\<lambda>r. r_store_id r = 10)
             (\<lambda>r. r\<lparr>rating := 5, updated_at := 999\<rparr>) example_db = Inr ?dr"
    by (simp add: update_ratings_def Let_def written_rows_def update_rows_def
        update_updated_at_column_def ratings_update_policy_def ratings_violation_def
        ratings_rating_check_def ratings_user_id_store_id_key_def ids tabs
        alice_rating_def carol_rating_def bakery_def bookshop_def)
  note Tp = updated_at_trigger
    [of 140 "authenticated 1" "\<lambda>p. p_id p = 1"
        "\<lambda>p. p\<lparr>p_name := ''Alicia'', updated_at := 5\<rparr>" example_db ?dp]
  note Ts = updated_at_trigger
    [of 140 "authenticated 2" _ _ example_db ?ds "\<lambda>s. s_id s = 10"
        "\<lambda>s. s\<lparr>s_name := ''Bakery and Cafe'', updated_at := 5\<rparr>"]
  note Tr = updated_at_trigger
    [of 140 "authenticated 1" _ _ example_db ?dr _ _ "\<lambda>r. r_store_id r = 10"
        "\<lambda>r. r\<lparr>rating := 5, updated_at := 999\<rparr>"]
  have lp: "list_all2 (\<lambda>OLD NEW. updated_at OLD \<le> 140 \<longrightarrow> updated_at OLD \<le> updated_at NEW)
              (profiles example_db) (profiles ?dp)"
    by (rule conjunct2 [OF mp [OF conjunct1 [OF Tp] p]])
  have ls: "list_all2 (\<lambda>OLD NEW. updated_at OLD \<le> 140 \<longrightarrow> updated_at OLD \<le> updated_at NEW)
              (stores example_db) (stores ?ds)"
    by (rule conjunct2 [OF mp [OF conjunct1 [OF conjunct2 [OF Ts]] s]])
  have lr: "list_all2 (\<lambda>OLD NEW. updated_at OLD \<le> 140 \<longrightarrow> updated_at OLD \<le> updated_at NEW)
              (ratings example_db) (ratings ?dr)"
    by (rule conjunct2 [OF mp [OF conjunct2 [OF conjunct2 [OF Tr]] r]])
  have sel: "profiles ?dp =
     [(profile_of alice ''Alicia'' ''alice@example.com'' ''1 Main Street'')\<lparr>updated_at := 140\<rparr>,
      profile_of bob ''Bob'' ''bob@example.com'' ''2 Main Street'',
      profile_of carol ''Carol'' ''carol@example.com'' ''3 Main Street'']"
    "stores ?ds = [bakery\<lparr>s_name := ''Bakery and Cafe'', updated_at := 140\<rparr>, bookshop]"
    "ratings ?dr = [alice_rating\<lparr>rating := 5, updated_at := 140\<rparr>, carol_rating]"
    by simp_all
  note lp' = lp [unfolded sel(1)]
  note ls' = ls [unfolded sel(2)]
  note lr' = lr [unfolded sel(3)]
  show ?thesis
    by (intro conjI p s r lp' ls' lr')
qed

section \<open>Responses of the provisioning endpoint\<close>

lemma or_else_nonempty: "b \<noteq> [] \<Longrightarrow> or_else a b \<noteq> []"
  by (simp add: or_else_def)

lemma handler_body:
  assumes "req_method req = ''POST''" and "request_body ev req = Some body"
    and "body \<noteq> JUndefined" and "body \<noteq> JNull"
  shows "handler ev req d =
         after_createUser ev (property body ''role'') (createUser ev (createUser_args body) d)"
  using assms by (simp add: handler_def)

text \<open>When \<open>createUser\<close> returns a user, the service accepted it and the insert went through.\<close>

lemma createUser_no_error:
  assumes "createUser ev args d = (Inr (Some u, None), d1)"
  shows "auth_admin ev args d = accept u \<and> insert_auth_users ev u d = Inr d1"
proof (cases "auth_admin ev args d")
  case (accept NEW)
  show ?thesis
  proof (cases "insert_auth_users ev NEW d")
    case (Inl e)
    with accept assms show ?thesis by (simp add: createUser_def)
  next
    case (Inr d')
    with accept assms show ?thesis by (simp add: createUser_def)
  qed
next
  case (reject err)
  with assms show ?thesis by (simp add: createUser_def)
next
  case (throw ex)
  with assms show ?thesis by (simp add: createUser_def)
next
  case no_user
  with assms show ?thesis by (simp add: createUser_def)
qed

lemma insert_auth_users_Inr:
  assumes "insert_auth_users ev NEW d = Inr d'"
  shows "auth_users d' = auth_users d @ [NEW] \<and>
         user_roles d' = user_roles d @
           [\<lparr> ur_id = gen_random_uuid ev, ur_user_id = au_id NEW, ur_role = normal_user,
              ur_created_at = now ev \<rparr>] \<and>
         (\<exists>p. profiles d' = profiles d @ [p] \<and> p_id p = au_id NEW) \<and>
         stores d' = stores d \<and> ratings d' = ratings d"
proof -
  let ?d0 = "d\<lparr>auth_users := auth_users d @ [NEW]\<rparr>"
  from assms have h: "handle_new_user ev NEW ?d0 = Inr d'"
    by (simp add: insert_auth_users_def split: if_splits)
  then obtain e where e: "au_email NEW = Some e"
    by (cases "au_email NEW") (simp_all add: handle_new_user_def)
  let ?p = "\<lparr> created_at = now ev, updated_at = now ev, p_id = au_id NEW,
              p_name = coalesce (json_text (raw_user_meta_data NEW) ''name'') ''Unknown'',
              p_email = e,
              p_address = coalesce (json_text (raw_user_meta_data NEW) ''address'') [] \<rparr>"
  let ?r = "\<lparr> ur_id = gen_random_uuid ev, ur_user_id = au_id NEW, ur_role = normal_user,
              ur_created_at = now ev \<rparr>"
  from h e obtain d1 where d1: "insert_profiles ?p ?d0 = Inr d1"
    and d2: "insert_user_roles ?r d1 = Inr d'"
    by (auto simp: handle_new_user_def split: sum.splits)
  from d1 have p1: "d1 = ?d0\<lparr>profiles := profiles d @ [?p]\<rparr>"
    by (simp add: insert_profiles_def split: option.splits)
  from d2 have "d' = d1\<lparr>user_roles := user_roles d1 @ [?r]\<rparr>"
    by (simp add: insert_user_roles_def split: option.splits)
  with p1 have p2: "d' = ?d0\<lparr>profiles := profiles d @ [?p], user_roles := user_roles d @ [?r]\<rparr>"
    by simp
  have "profiles d' = profiles d @ [?p] \<and> p_id ?p = au_id NEW"
    by (simp add: p2)
  then have "\<exists>p. profiles d' = profiles d @ [p] \<and> p_id p = au_id NEW" ..
  then show ?thesis
    by (simp add: p2)
qed

lemma update_role_error:
  assumes "update_role ev role uid d1 = (Some e, d2)"
  shows "d2 = d1"
proof (cases "app_role_of role")
  case None
  with assms show ?thesis by (simp add: update_role_def)
next
  case (Some r)
  with assms show ?thesis
    by (simp add: update_role_def split: sum.splits)
qed

text \<open>
  C5, as amended. The handler answers 405 to every request that is not a POST, and 400
  with \<^verbatim>\<open>Invalid JSON format\<close> to a POST whose body is a string that does not parse. It
  does not look at email or password: for a POST whose body (after parsing) is neither
  \<^verbatim>\<open>null\<close> nor \<^verbatim>\<open>undefined\<close> it passes them to \<open>createUser\<close>. It answers 400 with the
  error's message (or a fixed text if that is empty) when \<open>createUser\<close> throws or returns
  an error, or when the role update returns an error. Otherwise it answers 200, with the
  created user's id, email and metadata, or with no user if \<open>createUser\<close> returned neither
  a user nor an error. Every such request is answered, with status 200 or 400, and every
  400 carries a non-empty error string.
\<close>

theorem handler_responses:
  "(req_method req \<noteq> ''POST'' \<longrightarrow>
      handler ev req d = (responded 405 (error_body ''Method not allowed''), d)) \<and>
   (req_method req = ''POST'' \<and> request_body ev req = None \<longrightarrow>
      handler ev req d = (responded 400 (error_body ''Invalid JSON format''), d)) \<and>
   (req_method req = ''POST'' \<and> request_body ev req = Some body \<and>
    body \<noteq> JUndefined \<and> body \<noteq> JNull \<longrightarrow>
      (\<forall>ex d1. createUser ev (createUser_args body) d = (Inl ex, d1) \<longrightarrow>
         handler ev req d =
           (responded 400 (error_body (or_else (err_message ex) ''Unknown error'')), d1)) \<and>
      (\<forall>data e d1. createUser ev (createUser_args body) d = (Inr (data, Some e), d1) \<longrightarrow>
         handler ev req d =
           (responded 400 (error_body (or_else (err_message e) ''Supabase error'')), d1)) \<and>
      (\<forall>d1. createUser ev (createUser_args body) d = (Inr (None, None), d1) \<longrightarrow>
         handler ev req d = (responded 200 (success_body None), d1)) \<and>
      (\<forall>u d1. createUser ev (createUser_args body) d = (Inr (Some u, None), d1) \<longrightarrow>
         (if truthy (property body ''role'') \<and> property body ''role'' \<noteq> JString ''normal_user''
          then (\<forall>e d2. update_role ev (property body ''role'') (au_id u) d1 = (Some e, d2) \<longrightarrow>
                  handler ev req d =
                    (responded 400
                       (error_body (or_else (err_message e) ''Role update error'')), d2)) \<and>
               (\<forall>d2. update_role ev (property body ''role'') (au_id u) d1 = (None, d2) \<longrightarrow>
                  handler ev req d =
                    (responded 200
                       (success_body (Some \<lparr>uv_id = au_id u, uv_email = au_email u,
                                            uv_user_metadata = raw_user_meta_data u\<rparr>)), d2))
          else handler ev req d =
                 (responded 200
                    (success_body (Some \<lparr>uv_id = au_id u, uv_email = au_email u,
                                         uv_user_metadata = raw_user_meta_data u\<rparr>)), d1))) \<and>
      (\<exists>status b. fst (handler ev req d) = responded status b \<and>
         (status = 400 \<and> (\<exists>msg. b = error_body msg \<and> msg \<noteq> []) \<or>
          status = 200 \<and> (\<exists>v. b = success_body v))))"
proof (intro conjI impI)
  assume "req_method req \<noteq> ''POST''"
  then show "handler ev req d = (responded 405 (error_body ''Method not allowed''), d)"
    by (simp add: handler_def)
next
  assume "req_method req = ''POST'' \<and> request_body ev req = None"
  then show "handler ev req d = (responded 400 (error_body ''Invalid JSON format''), d)"
    by (simp add: handler_def)
next
  assume a: "req_method req = ''POST'' \<and> request_body ev req = Some body \<and>
             body \<noteq> JUndefined \<and> body \<noteq> JNull"
  then have H: "handler ev req d =
      after_createUser ev (property body ''role'') (createUser ev (createUser_args body) d)"
    by (simp add: handler_body)
  let ?role = "property body ''role''"
  let ?created = "createUser ev (createUser_args body) d"
  have t: "\<forall>ex d1. ?created = (Inl ex, d1) \<longrightarrow>
         handler ev req d =
           (responded 400 (error_body (or_else (err_message ex) ''Unknown error'')), d1)"
    by (simp add: H after_createUser_def)
  have r: "\<forall>data e d1. ?created = (Inr (data, Some e), d1) \<longrightarrow>
         handler ev req d =
           (responded 400 (error_body (or_else (err_message e) ''Supabase error'')), d1)"
    by (simp add: H after_createUser_def)
  have n: "\<forall>d1. ?created = (Inr (None, None), d1) \<longrightarrow>
         handler ev req d = (responded 200 (success_body None), d1)"
    by (simp add: H after_createUser_def ok_response_def)
  have s: "\<forall>u d1. ?created = (Inr (Some u, None), d1) \<longrightarrow>
         (if truthy ?role \<and> ?role \<noteq> JString ''normal_user''
          then (\<forall>e d2. update_role ev ?role (au_id u) d1 = (Some e, d2) \<longrightarrow>
                  handler ev req d =
                    (responded 400
                       (error_body (or_else (err_message e) ''Role update error'')), d2)) \<and>
               (\<forall>d2. update_role ev ?role (au_id u) d1 = (None, d2) \<longrightarrow>
                  handler ev req d =
                    (responded 200
                       (success_body (Some \<lparr>uv_id = au_id u, uv_email = au_email u,
                                            uv_user_metadata = raw_user_meta_data u\<rparr>)), d2))
          else handler ev req d =
                 (responded 200
                    (success_body (Some \<lparr>uv_id = au_id u, uv_email = au_email u,
                                         uv_user_metadata = raw_user_meta_data u\<rparr>)), d1))"
  proof (intro allI impI)
    fix u d1
    assume c: "?created = (Inr (Some u, None), d1)"
    show "if truthy ?role \<and> ?role \<noteq> JString ''normal_user''
          then (\<forall>e d2. update_role ev ?role (au_id u) d1 = (Some e, d2) \<longrightarrow>
                  handler ev req d =
                    (responded 400
                       (error_body (or_else (err_message e) ''Role update error'')), d2)) \<and>
               (\<forall>d2. update_role ev ?role (au_id u) d1 = (None, d2) \<longrightarrow>
                  handler ev req d =
                    (responded 200
                       (success_body (Some \<lparr>uv_id = au_id u, uv_email = au_email u,
                                            uv_user_metadata = raw_user_meta_data u\<rparr>)), d2))
          else handler ev req d =
                 (responded 200
                    (success_body (Some \<lparr>uv_id = au_id u, uv_email = au_email u,
                                         uv_user_metadata = raw_user_meta_data u\<rparr>)), d1)"
      by (simp add: H c after_createUser_def ok_response_def)
  qed
  have f: "\<exists>status b. fst (handler ev req d) = responded status b \<and>
         (status = 400 \<and> (\<exists>msg. b = error_body msg \<and> msg \<noteq> []) \<or>
          status = 200 \<and> (\<exists>v. b = success_body v))"
  proof -
    obtain res d1 where c: "?created = (res, d1)" by (cases ?created)
    show ?thesis
    proof (cases res)
      case (Inl ex)
      have "or_else (err_message ex) ''Unknown error'' \<noteq> []"
        by (rule or_else_nonempty) simp
      with c Inl show ?thesis
        by (simp add: H after_createUser_def)
    next
      case (Inr p)
      obtain data err where p: "p = (data, err)" by (cases p)
      show ?thesis
      proof (cases err)
        case (Some e)
        have "or_else (err_message e) ''Supabase error'' \<noteq> []"
          by (rule or_else_nonempty) simp
        with c Inr p Some show ?thesis
          by (simp add: H after_createUser_def)
      next
        case None
        with c Inr p have c': "?created = (Inr (data, None), d1)" by simp
        show ?thesis
        proof (cases data)
          case nodata: None
          with c' show ?thesis
            by (simp add: H after_createUser_def ok_response_def)
        next
          case (Some u)
          define upd where "upd \<longleftrightarrow> truthy ?role \<and> ?role \<noteq> JString ''normal_user''"
          show ?thesis
          proof (cases upd)
            case False
            with c' Some show ?thesis
              by (simp add: H after_createUser_def ok_response_def upd_def [symmetric])
          next
            case True
            obtain re d2 where ur: "update_role ev ?role (au_id u) d1 = (re, d2)"
              by (cases "update_role ev ?role (au_id u) d1")
            show ?thesis
            proof (cases re)
              case noerr: None
              with c' Some True ur show ?thesis
                by (simp add: H after_createUser_def ok_response_def upd_def [symmetric])
            next
              case (Some e)
              have "or_else (err_message e) ''Role update error'' \<noteq> []"
                by (rule or_else_nonempty) simp
              with c' \<open>data = Some u\<close> True ur Some show ?thesis
                by (simp add: H after_createUser_def upd_def [symmetric])
            qed
          qed
        qed
      qed
    qed
  qed
  from t show "\<forall>ex d1. ?created = (Inl ex, d1) \<longrightarrow>
         handler ev req d =
           (responded 400 (error_body (or_else (err_message ex) ''Unknown error'')), d1)" .
  from r show "\<forall>data e d1. ?created = (Inr (data, Some e), d1) \<longrightarrow>
         handler ev req d =
           (responded 400 (error_body (or_else (err_message e) ''Supabase error'')), d1)" .
  from n show "\<forall>d1. ?created = (Inr (None, None), d1) \<longrightarrow>
         handler ev req d = (responded 200 (success_body None), d1)" .
  from s show "\<forall>u d1. ?created = (Inr (Some u, None), d1) \<longrightarrow>
         (if truthy ?role \<and> ?role \<noteq> JString ''normal_user''
          then (\<forall>e d2. update_role ev ?role (au_id u) d1 = (Some e, d2) \<longrightarrow>
                  handler ev req d =
                    (responded 400
                       (error_body (or_else (err_message e) ''Role update error'')), d2)) \<and>
               (\<forall>d2. update_role ev ?role (au_id u) d1 = (None, d2) \<longrightarrow>
                  handler ev req d =
                    (responded 200
                       (success_body (Some \<lparr>uv_id = au_id u, uv_email = au_email u,
                                            uv_user_metadata = raw_user_meta_data u\<rparr>)), d2))
          else handler ev req d =
                 (responded 200
                    (success_body (Some \<lparr>uv_id = au_id u, uv_email = au_email u,
                                         uv_user_metadata = raw_user_meta_data u\<rparr>)), d1))" .
  from f show "\<exists>status b. fst (handler ev req d) = responded status b \<and>
         (status = 400 \<and> (\<exists>msg. b = error_body msg \<and> msg \<noteq> []) \<or>
          status = 200 \<and> (\<exists>v. b = success_body v))" .
qed

subsection \<open>The example requests, evaluated\<close>

lemma example_server_env_simps:
  "now example_server_env = 200" "gen_random_uuid example_server_env = 34"
  "pg_message example_server_env = example_message"
  "JSON_parse example_server_env = example_parse"
  "auth_admin example_server_env = example_auth_admin"
  by (simp_all add: example_server_env_def)

lemma jane_body_properties:
  "property (JObject jane_body) ''email'' = JString ''jane@example.com''"
  "property (JObject jane_body) ''password'' = JUndefined"
  "property (JObject jane_body) ''name'' = JString ''Jane''"
  "property (JObject jane_body) ''address'' = JUndefined"
  "property (JObject jane_body) ''role'' = JUndefined"
  by (simp_all add: property_def jane_body_def)

lemma jane_body_admin_properties:
  "property (JObject jane_body_admin) ''email'' = JString ''jane@example.com''"
  "property (JObject jane_body_admin) ''password'' = JUndefined"
  "property (JObject jane_body_admin) ''name'' = JString ''Jane''"
  "property (JObject jane_body_admin) ''address'' = JUndefined"
  "property (JObject jane_body_admin) ''role'' = JString ''admin''"
  by (simp_all add: property_def jane_body_admin_def jane_body_def)

lemma example_auth_admin_jane:
  "example_auth_admin
     \<lparr> cu_email = JString ''jane@example.com'', cu_password = JUndefined,
       cu_name = JString ''Jane'', cu_address = JUndefined \<rparr> example_db = accept jane"
  by (simp add: example_auth_admin_def meta_of_def jane_def)

lemma insert_auth_users_jane:
  "insert_auth_users example_server_env jane example_db = Inr example_db_jane"
proof -
  have ids: "map au_id (auth_users example_db) = [1, 2, 3]"
            "map p_id (profiles example_db) = [1, 2, 3]"
            "map ur_id (user_roles example_db) = [31, 32, 33]"
            "map (\<lambda>r. (ur_user_id r, ur_role r)) (user_roles example_db) =
               [(1, normal_user), (2, store_owner), (3, system_admin)]"
    by (simp_all add: example_db_def alice_def bob_def carol_def profile_of_def)
  have j: "au_id jane = 4" "au_email jane = Some ''jane@example.com''"
          "json_text (raw_user_meta_data jane) ''name'' = Some ''Jane''"
          "json_text (raw_user_meta_data jane) ''address'' = None"
    by (simp_all add: jane_def json_text_def)
  have "insert_auth_users example_server_env jane example_db =
        Inr (example_db\<lparr>auth_users := auth_users example_db @ [jane],
               profiles := profiles example_db @
                 [\<lparr> created_at = 200, updated_at = 200, p_id = 4, p_name = ''Jane'',
                    p_email = ''jane@example.com'', p_address = [] \<rparr>],
               user_roles := user_roles example_db @
                 [\<lparr> ur_id = 34, ur_user_id = 4, ur_role = normal_user,
                    ur_created_at = 200 \<rparr>]\<rparr>)"
    by (simp add: insert_auth_users_def handle_new_user_def insert_profiles_def
        profiles_violation_def insert_user_roles_def user_roles_violation_def
        user_roles_user_id_role_key_def coalesce_def ids j example_server_env_simps)
  also have "example_db\<lparr>auth_users := auth_users example_db @ [jane],
               profiles := profiles example_db @
                 [\<lparr> created_at = 200, updated_at = 200, p_id = 4, p_name = ''Jane'',
                    p_email = ''jane@example.com'', p_address = [] \<rparr>],
               user_roles := user_roles example_db @
                 [\<lparr> ur_id = 34, ur_user_id = 4, ur_role = normal_user,
                    ur_created_at = 200 \<rparr>]\<rparr> = example_db_jane"
    by (simp add: example_db_def example_db_jane_def)
  finally show ?thesis .
qed

lemma createUser_jane:
  "createUser example_server_env (createUser_args (JObject jane_body)) example_db =
   (Inr (Some jane, None), example_db_jane)"
  by (simp add: createUser_def createUser_args_def jane_body_properties
      example_server_env_simps example_auth_admin_jane insert_auth_users_jane)

lemma createUser_jane_admin:
  "createUser example_server_env (createUser_args (JObject jane_body_admin)) example_db =
   (Inr (Some jane, None), example_db_jane)"
  by (simp add: createUser_def createUser_args_def jane_body_admin_properties
      example_server_env_simps example_auth_admin_jane insert_auth_users_jane)

lemma createUser_empty:
  "createUser example_server_env (createUser_args (JObject [])) example_db =
   (Inr (None, Some \<lparr>err_message = ''Cannot create a user without an email''\<rparr>), example_db)"
  by (simp add: createUser_def createUser_args_def property_def example_server_env_simps
      example_auth_admin_def)

lemma update_role_admin:
  "update_role example_server_env (JString ''admin'') 4 example_db_jane =
   (Some \<lparr>err_message = ''invalid input value for enum app_role''\<rparr>, example_db_jane)"
  by (simp add: update_role_def app_role_of_def example_server_env_simps)

lemma request_body_post:
  "request_body example_server_env (post (JObject kvs)) = Some (JObject kvs)"
  "request_body example_server_env (post JNull) = Some JNull"
  "request_body example_server_env (post (JString ''{name'')) = None"
  by (simp_all add: request_body_def post_def example_server_env_simps example_parse_def)

lemma jane_view_eq:
  "\<lparr>uv_id = au_id jane, uv_email = au_email jane, uv_user_metadata = raw_user_meta_data jane\<rparr> =
   jane_view"
  by (simp add: jane_def jane_view_def)

subsection \<open>Responses\<close>

text \<open>
  The claim as stated fails: a request that carries no password is not rejected by the
  handler but handed to the provider, and answered 200 when the provider accepts it; and
  a body \<^verbatim>\<open>null\<close> is not answered 400, since the destructuring throws before the \<^verbatim>\<open>try\<close>.
\<close>

theorem handler_validation_counterexample:
  "property (JObject jane_body) ''password'' = JUndefined \<and>
   handler example_server_env (post (JObject jane_body)) example_db =
     (responded 200 (success_body (Some jane_view)), example_db_jane) \<and>
   handler example_server_env (post JNull) example_db = (uncaught ''TypeError'', example_db)"
proof -
  have m: "req_method (post (JObject jane_body)) = ''POST''" "req_method (post JNull) = ''POST''"
    by (simp_all add: post_def)
  have a: "handler example_server_env (post (JObject jane_body)) example_db =
     (responded 200 (success_body (Some jane_view)), example_db_jane)"
    by (simp add: handler_def m request_body_post createUser_jane after_createUser_def
        jane_body_properties ok_response_def jane_view_eq)
  have b: "handler example_server_env (post JNull) example_db = (uncaught ''TypeError'', example_db)"
    by (simp add: handler_def m request_body_post)
  show ?thesis
    by (intro conjI jane_body_properties(2) a b)
qed

theorem handler_responses_witness:
  "req_method get_request \<noteq> ''POST'' \<and>
   handler example_server_env get_request example_db =
     (responded 405 (error_body ''Method not allowed''), example_db) \<and>
   req_method (post (JString ''{name'')) = ''POST'' \<and>
   request_body example_server_env (post (JString ''{name'')) = None \<and>
   handler example_server_env (post (JString ''{name'')) example_db =
     (responded 400 (error_body ''Invalid JSON format''), example_db) \<and>
   req_method (post (JObject [])) = ''POST'' \<and>
   request_body example_server_env (post (JObject [])) = Some (JObject []) \<and>
   createUser example_server_env (createUser_args (JObject [])) example_db =
     (Inr (None, Some \<lparr>err_message = ''Cannot create a user without an email''\<rparr>), example_db) \<and>
   handler example_server_env (post (JObject [])) example_db =
     (responded 400 (error_body ''Cannot create a user without an email''), example_db) \<and>
   req_method (post (JObject jane_body)) = ''POST'' \<and>
   request_body example_server_env (post (JObject jane_body)) = Some (JObject jane_body) \<and>
   createUser example_server_env (createUser_args (JObject jane_body)) example_db =
     (Inr (Some jane, None), example_db_jane) \<and>
   handler example_server_env (post (JObject jane_body)) example_db =
     (responded 200 (success_body (Some jane_view)), example_db_jane) \<and>
   request_body silent_server_env (post (JObject jane_body)) = Some (JObject jane_body) \<and>
   createUser silent_server_env (createUser_args (JObject jane_body)) example_db =
     (Inr (None, None), example_db) \<and>
   handler silent_server_env (post (JObject jane_body)) example_db =
     (responded 200 (success_body None), example_db)"
proof -
  have g: "req_method get_request \<noteq> ''POST''"
    by (simp add: get_request_def)
  have m: "req_method (post (JString ''{name'')) = ''POST''"
          "req_method (post (JObject [])) = ''POST''"
          "req_method (post (JObject jane_body)) = ''POST''"
    by (simp_all add: post_def)
  note b = request_body_post(3) request_body_post(1) [of "[]"] request_body_post(1) [of jane_body]
  have h1: "handler example_server_env get_request example_db =
     (responded 405 (error_body ''Method not allowed''), example_db)"
    by (rule mp [OF conjunct1 [OF handler_responses] g])
  have h2: "handler example_server_env (post (JString ''{name'')) example_db =
     (responded 400 (error_body ''Invalid JSON format''), example_db)"
    by (rule mp [OF conjunct1 [OF conjunct2 [OF handler_responses]] conjI [OF m(1) b(1)]])
  note T3 = mp [OF conjunct2 [OF conjunct2
                 [OF handler_responses [of "post (JObject [])" example_server_env example_db
                                           "JObject []"]]]]
  have p3: "req_method (post (JObject [])) = ''POST'' \<and>
            request_body example_server_env (post (JObject [])) = Some (JObject []) \<and>
            JObject [] \<noteq> JUndefined \<and> JObject [] \<noteq> JNull"
    by (simp add: m b)
  note A3 = conjunct1 [OF conjunct2 [OF T3 [OF p3]], rule_format, OF createUser_empty]
  from A3
  have h3: "handler example_server_env (post (JObject [])) example_db =
     (responded 400 (error_body ''Cannot create a user without an email''), example_db)"
    by (simp add: or_else_def)
  note T4 = mp [OF conjunct2 [OF conjunct2
                 [OF handler_responses [of "post (JObject jane_body)" example_server_env
                                           example_db "JObject jane_body"]]]]
  have p4: "req_method (post (JObject jane_body)) = ''POST'' \<and>
            request_body example_server_env (post (JObject jane_body)) = Some (JObject jane_body) \<and>
            JObject jane_body \<noteq> JUndefined \<and> JObject jane_body \<noteq> JNull"
    by (simp add: m b)
  from conjunct1 [OF conjunct2 [OF conjunct2 [OF conjunct2 [OF T4 [OF p4]]]], rule_format,
                  OF createUser_jane]
  have h4: "handler example_server_env (post (JObject jane_body)) example_db =
     (responded 200 (success_body (Some jane_view)), example_db_jane)"
    by (simp add: jane_body_properties jane_view_eq)
  have b5: "request_body silent_server_env (post (JObject jane_body)) = Some (JObject jane_body)"
    by (simp add: request_body_def post_def)
  have c5: "createUser silent_server_env (createUser_args (JObject jane_body)) example_db =
     (Inr (None, None), example_db)"
    by (simp add: createUser_def silent_server_env_def)
  note T5 = mp [OF conjunct2 [OF conjunct2
                 [OF handler_responses [of "post (JObject jane_body)" silent_server_env
                                           example_db "JObject jane_body"]]]]
  have p5: "req_method (post (JObject jane_body)) = ''POST'' \<and>
            request_body silent_server_env (post (JObject jane_body)) = Some (JObject jane_body) \<and>
            JObject jane_body \<noteq> JUndefined \<and> JObject jane_body \<noteq> JNull"
    by (simp add: m b5)
  note h5 = conjunct1 [OF conjunct2 [OF conjunct2 [OF T5 [OF p5]]], rule_format, OF c5]
  show ?thesis
    by (intro conjI g h1 m b h2 createUser_empty h3 createUser_jane h4 b5 c5 h5)
qed

text \<open>
  C6. When \<open>createUser\<close> has created the identity \<open>u\<close> and the role update that follows
  returns an error, the handler answers 400 with that error's message (a fixed text if
  it is empty), and the database is the one \<open>createUser\<close> left: the identity, its profile
  and its \<^verbatim>\<open>user_roles\<close> row with role \<open>normal_user\<close> are there, nothing is undone.
\<close>

theorem role_update_failure_keeps_identity:
  assumes "req_method req = ''POST''" and "request_body ev req = Some body"
    and "body \<noteq> JUndefined" and "body \<noteq> JNull"
    and "createUser ev (createUser_args body) d = (Inr (Some u, None), d1)"
    and "truthy (property body ''role'')" and "property body ''role'' \<noteq> JString ''normal_user''"
    and "update_role ev (property body ''role'') (au_id u) d1 = (Some e, d2)"
  shows "handler ev req d =
           (responded 400 (error_body (or_else (err_message e) ''Role update error'')), d1) \<and>
         d2 = d1 \<and>
         auth_users d1 = auth_users d @ [u] \<and>
         user_roles d1 = user_roles d @
           [\<lparr> ur_id = gen_random_uuid ev, ur_user_id = au_id u, ur_role = normal_user,
              ur_created_at = now ev \<rparr>] \<and>
         has_role d1 (Some (au_id u)) normal_user \<and>
         (\<exists>p. profiles d1 = profiles d @ [p] \<and> p_id p = au_id u)"
proof -
  have e: "d2 = d1"
    using assms(8) by (rule update_role_error)
  have H: "handler ev req d =
      after_createUser ev (property body ''role'') (createUser ev (createUser_args body) d)"
    using assms(1-4) by (rule handler_body)
  have h: "handler ev req d =
           (responded 400 (error_body (or_else (err_message e) ''Role update error'')), d1)"
    using assms(6,7) by (simp add: H assms(5) after_createUser_def assms(8) e)
  from createUser_no_error [OF assms(5)] have i: "insert_auth_users ev u d = Inr d1"
    by simp
  note r = insert_auth_users_Inr [OF i]
  have hr: "has_role d1 (Some (au_id u)) normal_user"
    by (simp add: has_role_def conjunct1 [OF conjunct2 [OF r]])
  show ?thesis
    using h e r hr by simp
qed

theorem role_update_failure_keeps_identity_witness:
  "req_method (post (JObject jane_body_admin)) = ''POST'' \<and>
   request_body example_server_env (post (JObject jane_body_admin)) =
     Some (JObject jane_body_admin) \<and>
   createUser example_server_env (createUser_args (JObject jane_body_admin)) example_db =
     (Inr (Some jane, None), example_db_jane) \<and>
   truthy (property (JObject jane_body_admin) ''role'') \<and>
   property (JObject jane_body_admin) ''role'' \<noteq> JString ''normal_user'' \<and>
   update_role example_server_env (property (JObject jane_body_admin) ''role'') (au_id jane)
     example_db_jane =
     (Some \<lparr>err_message = ''invalid input value for enum app_role''\<rparr>, example_db_jane) \<and>
   handler example_server_env (post (JObject jane_body_admin)) example_db =
     (responded 400 (error_body ''invalid input value for enum app_role''), example_db_jane) \<and>
   has_role example_db_jane (Some 4) normal_user \<and>
   auth_users example_db_jane = auth_users example_db @ [jane]"
proof -
  have m: "req_method (post (JObject jane_body_admin)) = ''POST''"
    by (simp add: post_def)
  note b = request_body_post(1) [of jane_body_admin]
  have n: "JObject jane_body_admin \<noteq> JUndefined" "JObject jane_body_admin \<noteq> JNull"
    by simp_all
  have t: "truthy (property (JObject jane_body_admin) ''role'')"
    by (simp add: jane_body_admin_properties)
  have k: "property (JObject jane_body_admin) ''role'' \<noteq> JString ''normal_user''"
    by (simp add: jane_body_admin_properties)
  have u: "update_role example_server_env (property (JObject jane_body_admin) ''role'')
             (au_id jane) example_db_jane =
           (Some \<lparr>err_message = ''invalid input value for enum app_role''\<rparr>, example_db_jane)"
    by (simp add: jane_body_admin_properties update_role_admin jane_def)
  note T = role_update_failure_keeps_identity [OF m b n createUser_jane_admin t k u]
  from conjunct1 [OF T]
  have h: "handler example_server_env (post (JObject jane_body_admin)) example_db =
     (responded 400 (error_body ''invalid input value for enum app_role''), example_db_jane)"
    by (simp add: or_else_def)
  from conjunct1 [OF conjunct2 [OF conjunct2 [OF conjunct2 [OF conjunct2 [OF T]]]]]
  have r: "has_role example_db_jane (Some 4) normal_user"
    by (simp add: jane_def)
  note a = conjunct1 [OF conjunct2 [OF conjunct2 [OF T]]]
  show ?thesis
    by (intro conjI m b createUser_jane_admin t k u h r a)
qed

text \<open>
  C9. For a POST whose body has no \<open>role\<close> or the role \<^verbatim>\<open>normal_user\<close>, the database after
  the handler is the database \<open>createUser\<close> left: nothing is written afterwards. If
  \<open>createUser\<close> created the identity \<open>u\<close>, the answer is 200 with that user, and
  \<^verbatim>\<open>user_roles\<close> is what it was before plus the one row of the registration trigger.
\<close>

theorem default_role_no_role_write:
  assumes "req_method req = ''POST''" and "request_body ev req = Some body"
    and "body \<noteq> JUndefined" and "body \<noteq> JNull"
    and "property body ''role'' = JUndefined \<or> property body ''role'' = JString ''normal_user''"
  shows "snd (handler ev req d) = snd (createUser ev (createUser_args body) d) \<and>
         (\<forall>u d1. createUser ev (createUser_args body) d = (Inr (Some u, None), d1) \<longrightarrow>
            handler ev req d =
              (responded 200
                 (success_body (Some \<lparr>uv_id = au_id u, uv_email = au_email u,
                                      uv_user_metadata = raw_user_meta_data u\<rparr>)), d1) \<and>
            user_roles d1 = user_roles d @
              [\<lparr> ur_id = gen_random_uuid ev, ur_user_id = au_id u, ur_role = normal_user,
                 ur_created_at = now ev \<rparr>])"
proof -
  let ?role = "property body ''role''"
  let ?created = "createUser ev (createUser_args body) d"
  have H: "handler ev req d = after_createUser ev ?role ?created"
    using assms(1-4) by (rule handler_body)
  from assms(5) have no: "\<not> (truthy ?role \<and> ?role \<noteq> JString ''normal_user'')"
  proof
    assume "?role = JUndefined"
    then show ?thesis by simp
  next
    assume "?role = JString ''normal_user''"
    then show ?thesis by simp
  qed
  define upd where "upd \<longleftrightarrow> truthy ?role \<and> ?role \<noteq> JString ''normal_user''"
  with no have nu: "\<not> upd" by simp
  have s: "snd (after_createUser ev ?role created) = snd created" for created
  proof -
    obtain res d1 where c: "created = (res, d1)" by (cases created)
    show ?thesis
    proof (cases res)
      case (Inl ex)
      with c show ?thesis by (simp add: after_createUser_def)
    next
      case (Inr p)
      obtain data err where p: "p = (data, err)" by (cases p)
      show ?thesis
      proof (cases err)
        case (Some e)
        with c Inr p show ?thesis by (simp add: after_createUser_def)
      next
        case None
        show ?thesis
        proof (cases data)
          case None
          with c Inr p \<open>err = None\<close> show ?thesis by (simp add: after_createUser_def)
        next
          case (Some u)
          with c Inr p \<open>err = None\<close> nu show ?thesis
            by (simp add: after_createUser_def upd_def [symmetric])
        qed
      qed
    qed
  qed
  have a: "snd (handler ev req d) = snd ?created"
    by (simp only: H s)
  have b: "\<forall>u d1. ?created = (Inr (Some u, None), d1) \<longrightarrow>
            handler ev req d =
              (responded 200
                 (success_body (Some \<lparr>uv_id = au_id u, uv_email = au_email u,
                                      uv_user_metadata = raw_user_meta_data u\<rparr>)), d1) \<and>
            user_roles d1 = user_roles d @
              [\<lparr> ur_id = gen_random_uuid ev, ur_user_id = au_id u, ur_role = normal_user,
                 ur_created_at = now ev \<rparr>]"
  proof (intro allI impI)
    fix u d1
    assume c: "?created = (Inr (Some u, None), d1)"
    from nu have h: "handler ev req d =
              (responded 200
                 (success_body (Some \<lparr>uv_id = au_id u, uv_email = au_email u,
                                      uv_user_metadata = raw_user_meta_data u\<rparr>)), d1)"
      by (simp add: H c after_createUser_def ok_response_def upd_def [symmetric])
    from createUser_no_error [OF c] have "insert_auth_users ev u d = Inr d1"
      by simp
    from insert_auth_users_Inr [OF this] h
    show "handler ev req d =
              (responded 200
                 (success_body (Some \<lparr>uv_id = au_id u, uv_email = au_email u,
                                      uv_user_metadata = raw_user_meta_data u\<rparr>)), d1) \<and>
            user_roles d1 = user_roles d @
              [\<lparr> ur_id = gen_random_uuid ev, ur_user_id = au_id u, ur_role = normal_user,
                 ur_created_at = now ev \<rparr>]"
      by simp
  qed
  from a b show ?thesis ..
qed

theorem default_role_no_role_write_witness:
  "req_method (post (JObject jane_body)) = ''POST'' \<and>
   request_body example_server_env (post (JObject jane_body)) = Some (JObject jane_body) \<and>
   property (JObject jane_body) ''role'' = JUndefined \<and>
   createUser example_server_env (createUser_args (JObject jane_body)) example_db =
     (Inr (Some jane, None), example_db_jane) \<and>
   snd (handler example_server_env (post (JObject jane_body)) example_db) = example_db_jane \<and>
   handler example_server_env (post (JObject jane_body)) example_db =
     (responded 200 (success_body (Some jane_view)), example_db_jane) \<and>
   user_roles example_db_jane = user_roles example_db @
     [\<lparr> ur_id = 34, ur_user_id = 4, ur_role = normal_user, ur_created_at = 200 \<rparr>]"
proof -
  have m: "req_method (post (JObject jane_body)) = ''POST''"
    by (simp add: post_def)
  note b = request_body_post(1) [of jane_body]
  have n: "JObject jane_body \<noteq> JUndefined" "JObject jane_body \<noteq> JNull"
    by simp_all
  have r: "property (JObject jane_body) ''role'' = JUndefined \<or>
           property (JObject jane_body) ''role'' = JString ''normal_user''"
    by (simp add: jane_body_properties)
  note T = default_role_no_role_write [OF m b n r, of example_db]
  from conjunct1 [OF T]
  have s: "snd (handler example_server_env (post (JObject jane_body)) example_db) = example_db_jane"
    by (simp add: createUser_jane)
  from conjunct2 [OF T, rule_format, OF createUser_jane]
  have h: "handler example_server_env (post (JObject jane_body)) example_db =
             (responded 200 (success_body (Some jane_view)), example_db_jane)"
    and u: "user_roles example_db_jane = user_roles example_db @
     [\<lparr> ur_id = 34, ur_user_id = 4, ur_role = normal_user, ur_created_at = 200 \<rparr>]"
    by (simp_all add: jane_view_def example_server_env_simps jane_def)
  show ?thesis
    by (intro conjI m b jane_body_properties(5) createUser_jane s h u)
qed

section \<open>Rating submission\<close>








subsection \<open>The two statements\<close>





subsection \<open>One submission\<close>





subsection \<open>Two submissions for one store\<close>







section \<open>Store creation\<close>

lemma insert_stores_Inr:
  "insert_stores c s d = Inr d1 \<Longrightarrow> d1 = d\<lparr>stores := stores d @ [s]\<rparr>"
  by (simp add: insert_stores_def split: if_splits option.splits)

lemma insert_stores_policy:
  "insert_stores c s d = Inr d1 \<Longrightarrow> stores_all_policy d c s"
  by (simp add: insert_stores_def split: if_splits)

text \<open>Who may insert a store may write every row of \<^verbatim>\<open>user_roles\<close>.\<close>

lemma update_user_roles_Inr:
  assumes "stores_all_policy d c s" and "user_roles d1 = user_roles d"
    and "update_user_roles c cond assign d1 = Inr d2"
  shows "d2 = d1\<lparr>user_roles := map (\<lambda>r. if cond r then assign r else r) (user_roles d)\<rparr>"
proof -
  have "has_role d1 (auth_uid c) system_admin = has_role d (auth_uid c) system_admin"
    by (simp add: has_role_def assms(2))
  with assms(1) have p: "user_roles_all_policy d1 c r" for r
    by (simp add: stores_all_policy_def user_roles_all_policy_def)
  from assms(3) show ?thesis
    by (simp add: update_user_roles_def Let_def p assms(2) split: if_splits option.splits)
qed

text \<open>
  C10. Once the owner is found and the store row is inserted, \<open>createStore\<close> issues the
  update of the owner's \<^verbatim>\<open>user_roles\<close> rows to \<open>store_owner\<close> and shows the success toast
  whatever that update returns. If the update succeeds, the database is the one it
  leaves: the store is there, every \<^verbatim>\<open>user_roles\<close> row of the owner has the role
  \<open>store_owner\<close> and the other rows are as before, so an owner with a role row holds
  \<open>store_owner\<close>. If the update fails, the database is the one the insert left: the store
  is there and \<^verbatim>\<open>user_roles\<close> is as before, so its owner holds exactly the roles held
  before.
\<close>

theorem createStore_role_update_unchecked:
  assumes "single (select_profiles c (\<lambda>p. p_email p = ns_ownerEmail form) d) = Some ownerData"
    and "insert_stores c
           \<lparr> created_at = now ev, updated_at = now ev, s_id = gen_random_uuid ev,
             s_owner_id = p_id ownerData, s_name = ns_name form, s_email = ns_email form,
             s_address = ns_address form \<rparr> d = Inr d1"
  shows "fst (createStore ev c form d) = toast ''Success'' ''Store created successfully'' \<and>
         (\<forall>d2. update_user_roles c (\<lambda>r. ur_user_id r = p_id ownerData)
                  (\<lambda>r. r\<lparr>ur_role := store_owner\<rparr>) d1 = Inr d2 \<longrightarrow>
              createStore ev c form d = (toast ''Success'' ''Store created successfully'', d2) \<and>
              stores d2 = stores d @
                [\<lparr> created_at = now ev, updated_at = now ev, s_id = gen_random_uuid ev,
                   s_owner_id = p_id ownerData, s_name = ns_name form, s_email = ns_email form,
                   s_address = ns_address form \<rparr>] \<and>
              user_roles d2 =
                map (\<lambda>r. if ur_user_id r = p_id ownerData then r\<lparr>ur_role := store_owner\<rparr> else r)
                    (user_roles d) \<and>
              list_all (\<lambda>r. ur_user_id r = p_id ownerData \<longrightarrow> ur_role r = store_owner)
                (user_roles d2) \<and>
              (p_id ownerData \<in> set (map ur_user_id (user_roles d)) \<longrightarrow>
                 has_role d2 (Some (p_id ownerData)) store_owner)) \<and>
         (\<forall>e. update_user_roles c (\<lambda>r. ur_user_id r = p_id ownerData)
                 (\<lambda>r. r\<lparr>ur_role := store_owner\<rparr>) d1 = Inl e \<longrightarrow>
              createStore ev c form d = (toast ''Success'' ''Store created successfully'', d1) \<and>
              stores d1 = stores d @
                [\<lparr> created_at = now ev, updated_at = now ev, s_id = gen_random_uuid ev,
                   s_owner_id = p_id ownerData, s_name = ns_name form, s_email = ns_email form,
                   s_address = ns_address form \<rparr>] \<and>
              user_roles d1 = user_roles d \<and>
              has_role d1 (Some (p_id ownerData)) store_owner =
                has_role d (Some (p_id ownerData)) store_owner)"
proof -
  let ?s = "\<lparr> created_at = now ev, updated_at = now ev, s_id = gen_random_uuid ev,
             s_owner_id = p_id ownerData, s_name = ns_name form, s_email = ns_email form,
             s_address = ns_address form \<rparr>"
  let ?upd = "update_user_roles c (\<lambda>r. ur_user_id r = p_id ownerData)
                 (\<lambda>r. r\<lparr>ur_role := store_owner\<rparr>)"
  let ?f = "\<lambda>r. if ur_user_id r = p_id ownerData then r\<lparr>ur_role := store_owner\<rparr> else r"
  have cs: "createStore ev c form d =
            (toast ''Success'' ''Store created successfully'', snd (exec ?upd d1))"
    by (simp add: createStore_def assms)
  from insert_stores_Inr [OF assms(2)] have d1: "d1 = d\<lparr>stores := stores d @ [?s]\<rparr>" .
  have ur1: "user_roles d1 = user_roles d"
    by (simp add: d1)
  have a: "fst (createStore ev c form d) = toast ''Success'' ''Store created successfully''"
    by (simp add: cs)
  have s: "\<forall>d2. ?upd d1 = Inr d2 \<longrightarrow>
              createStore ev c form d = (toast ''Success'' ''Store created successfully'', d2) \<and>
              stores d2 = stores d @ [?s] \<and>
              user_roles d2 = map ?f (user_roles d) \<and>
              list_all (\<lambda>r. ur_user_id r = p_id ownerData \<longrightarrow> ur_role r = store_owner)
                (user_roles d2) \<and>
              (p_id ownerData \<in> set (map ur_user_id (user_roles d)) \<longrightarrow>
                 has_role d2 (Some (p_id ownerData)) store_owner)"
  proof (intro allI impI)
    fix d2
    assume f: "?upd d1 = Inr d2"
    have 1: "createStore ev c form d = (toast ''Success'' ''Store created successfully'', d2)"
      by (simp add: cs exec_def f)
    from update_user_roles_Inr [OF insert_stores_policy [OF assms(2)] ur1 f]
    have d2: "d2 = d1\<lparr>user_roles := map ?f (user_roles d)\<rparr>" .
    have 2: "stores d2 = stores d @ [?s]" and 3: "user_roles d2 = map ?f (user_roles d)"
      by (simp_all add: d2 d1)
    have 4: "list_all (\<lambda>r. ur_user_id r = p_id ownerData \<longrightarrow> ur_role r = store_owner)
               (user_roles d2)"
      unfolding 3 list_all_iff by auto
    have 5: "has_role d2 (Some (p_id ownerData)) store_owner"
      if "p_id ownerData \<in> set (map ur_user_id (user_roles d))"
    proof -
      from that obtain r where r: "r \<in> set (user_roles d)" "ur_user_id r = p_id ownerData"
        by auto
      then have "?f r \<in> set (user_roles d2)" by (simp add: 3)
      moreover have "ur_user_id (?f r) = p_id ownerData \<and> ur_role (?f r) = store_owner"
        using r(2) by simp
      ultimately show ?thesis
        unfolding has_role_def list_ex_iff by blast
    qed
    from 1 2 3 4 5 show "createStore ev c form d =
                (toast ''Success'' ''Store created successfully'', d2) \<and>
              stores d2 = stores d @ [?s] \<and>
              user_roles d2 = map ?f (user_roles d) \<and>
              list_all (\<lambda>r. ur_user_id r = p_id ownerData \<longrightarrow> ur_role r = store_owner)
                (user_roles d2) \<and>
              (p_id ownerData \<in> set (map ur_user_id (user_roles d)) \<longrightarrow>
                 has_role d2 (Some (p_id ownerData)) store_owner)"
      by (intro conjI impI)
  qed
  have b: "\<forall>e. ?upd d1 = Inl e \<longrightarrow>
              createStore ev c form d = (toast ''Success'' ''Store created successfully'', d1) \<and>
              stores d1 = stores d @ [?s] \<and>
              user_roles d1 = user_roles d \<and>
              has_role d1 (Some (p_id ownerData)) store_owner =
                has_role d (Some (p_id ownerData)) store_owner"
  proof (intro allI impI)
    fix e
    assume f: "?upd d1 = Inl e"
    have 1: "createStore ev c form d = (toast ''Success'' ''Store created successfully'', d1)"
      by (simp add: cs exec_def f)
    have 2: "stores d1 = stores d @ [?s]" "user_roles d1 = user_roles d"
      by (simp_all add: d1)
    have 3: "has_role d1 (Some (p_id ownerData)) store_owner =
                has_role d (Some (p_id ownerData)) store_owner"
      by (simp add: has_role_def 2)
    from 1 2 3 show "createStore ev c form d =
                (toast ''Success'' ''Store created successfully'', d1) \<and>
              stores d1 = stores d @ [?s] \<and>
              user_roles d1 = user_roles d \<and>
              has_role d1 (Some (p_id ownerData)) store_owner =
                has_role d (Some (p_id ownerData)) store_owner"
      by (intro conjI)
  qed
  from a s b show ?thesis
    by (intro conjI)
qed

theorem createStore_role_update_unchecked_witness:
  "single (select_profiles (authenticated 3) (\<lambda>p. p_email p = ns_ownerEmail cafe_form)
             example_db) =
     Some (profile_of alice ''Alice'' ''alice@example.com'' ''1 Main Street'') \<and>
   insert_stores (authenticated 3) cafe example_db =
     Inr (example_db\<lparr>stores := [bakery, bookshop, cafe]\<rparr>) \<and>
   update_user_roles (authenticated 3) (\<lambda>r. ur_user_id r = 1) (\<lambda>r. r\<lparr>ur_role := store_owner\<rparr>)
     (example_db\<lparr>stores := [bakery, bookshop, cafe]\<rparr>) =
     Inr (example_db\<lparr>stores := [bakery, bookshop, cafe], user_roles := cafe_roles\<rparr>) \<and>
   createStore store_env (authenticated 3) cafe_form example_db =
     (toast ''Success'' ''Store created successfully'',
      example_db\<lparr>stores := [bakery, bookshop, cafe], user_roles := cafe_roles\<rparr>) \<and>
   has_role (example_db\<lparr>stores := [bakery, bookshop, cafe], user_roles := cafe_roles\<rparr>)
     (Some 1) store_owner \<and>
   \<not> has_role example_db (Some 1) store_owner \<and>
   single (select_profiles (authenticated 3) (\<lambda>p. p_email p = ns_ownerEmail cafe_form)
             example_db_two_roles) =
     Some (profile_of alice ''Alice'' ''alice@example.com'' ''1 Main Street'') \<and>
   insert_stores (authenticated 3) cafe example_db_two_roles =
     Inr (example_db_two_roles\<lparr>stores := [bakery, bookshop, cafe]\<rparr>) \<and>
   update_user_roles (authenticated 3) (\<lambda>r. ur_user_id r = 1) (\<lambda>r. r\<lparr>ur_role := store_owner\<rparr>)
     (example_db_two_roles\<lparr>stores := [bakery, bookshop, cafe]\<rparr>) =
     Inl (unique_violation ''user_roles_user_id_role_key'') \<and>
   createStore store_env (authenticated 3) cafe_form example_db_two_roles =
     (toast ''Success'' ''Store created successfully'',
      example_db_two_roles\<lparr>stores := [bakery, bookshop, cafe]\<rparr>) \<and>
   s_owner_id cafe = 1 \<and>
   \<not> has_role (example_db_two_roles\<lparr>stores := [bakery, bookshop, cafe]\<rparr>) (Some 1) store_owner"
proof -
  let ?P = "profile_of alice ''Alice'' ''alice@example.com'' ''1 Main Street''"
  let ?d1 = "example_db_two_roles\<lparr>stores := [bakery, bookshop, cafe]\<rparr>"
  let ?e1 = "example_db\<lparr>stores := [bakery, bookshop, cafe]\<rparr>"
  let ?e2 = "example_db\<lparr>stores := [bakery, bookshop, cafe], user_roles := cafe_roles\<rparr>"
  have tabs: "profiles example_db_two_roles =
                [profile_of alice ''Alice'' ''alice@example.com'' ''1 Main Street'',
                 profile_of bob ''Bob'' ''bob@example.com'' ''2 Main Street'',
                 profile_of carol ''Carol'' ''carol@example.com'' ''3 Main Street'']"
    "stores example_db_two_roles = [bakery, bookshop]"
    "auth_users example_db_two_roles = [alice, bob, carol]"
    "user_roles example_db_two_roles =
       [\<lparr> ur_id = 31, ur_user_id = 1, ur_role = normal_user, ur_created_at = 100 \<rparr>,
        \<lparr> ur_id = 32, ur_user_id = 2, ur_role = store_owner, ur_created_at = 100 \<rparr>,
        \<lparr> ur_id = 33, ur_user_id = 3, ur_role = system_admin, ur_created_at = 100 \<rparr>,
        \<lparr> ur_id = 35, ur_user_id = 1, ur_role = system_admin, ur_created_at = 150 \<rparr>]"
    by (simp_all add: example_db_two_roles_def example_db_def)
  have tabs0: "profiles example_db =
                [profile_of alice ''Alice'' ''alice@example.com'' ''1 Main Street'',
                 profile_of bob ''Bob'' ''bob@example.com'' ''2 Main Street'',
                 profile_of carol ''Carol'' ''carol@example.com'' ''3 Main Street'']"
    "stores example_db = [bakery, bookshop]"
    "auth_users example_db = [alice, bob, carol]"
    "user_roles example_db =
       [\<lparr> ur_id = 31, ur_user_id = 1, ur_role = normal_user, ur_created_at = 100 \<rparr>,
        \<lparr> ur_id = 32, ur_user_id = 2, ur_role = store_owner, ur_created_at = 100 \<rparr>,
        \<lparr> ur_id = 33, ur_user_id = 3, ur_role = system_admin, ur_created_at = 100 \<rparr>]"
    by (simp_all add: example_db_def)
  have adm: "has_role example_db_two_roles (Some 3) system_admin"
    by (simp add: has_role_def tabs)
  have adm1: "has_role ?d1 (Some 3) system_admin"
    by (simp add: has_role_def tabs)
  have adm0: "has_role example_db (Some 3) system_admin"
    by (simp add: has_role_def tabs0)
  have adm01: "has_role ?e1 (Some 3) system_admin"
    by (simp add: has_role_def tabs0)
  have sel: "select_profiles (authenticated 3) (\<lambda>p. p_email p = ''alice@example.com'')
               example_db_two_roles = [?P]"
    by (simp add: select_profiles_def profiles_select_policy_def adm tabs profile_of_def)
  have ow: "single (select_profiles (authenticated 3) (\<lambda>p. p_email p = ns_ownerEmail cafe_form)
             example_db_two_roles) = Some ?P"
    by (simp add: cafe_form_def sel single_def)
  have sel0: "select_profiles (authenticated 3) (\<lambda>p. p_email p = ''alice@example.com'')
               example_db = [?P]"
    by (simp add: select_profiles_def profiles_select_policy_def adm0 tabs0 profile_of_def)
  have ow0: "single (select_profiles (authenticated 3) (\<lambda>p. p_email p = ns_ownerEmail cafe_form)
             example_db) = Some ?P"
    by (simp add: cafe_form_def sel0 single_def)
  have ins: "insert_stores (authenticated 3) cafe example_db_two_roles = Inr ?d1"
    by (simp add: insert_stores_def stores_all_policy_def adm stores_violation_def
        stores_pkey_def tabs cafe_def alice_def bob_def carol_def bakery_def bookshop_def)
  have ins0: "insert_stores (authenticated 3) cafe example_db = Inr ?e1"
    by (simp add: insert_stores_def stores_all_policy_def adm0 stores_violation_def
        stores_pkey_def tabs0 cafe_def alice_def bob_def carol_def bakery_def bookshop_def)
  have row: "\<lparr> created_at = now store_env, updated_at = now store_env,
               s_id = gen_random_uuid store_env, s_owner_id = 1,
               s_name = ns_name cafe_form, s_email = ns_email cafe_form,
               s_address = ns_address cafe_form \<rparr> = cafe"
    by (simp add: store_env_def cafe_form_def cafe_def)
  have pid: "p_id ?P = 1"
    by (simp add: profile_of_def alice_def)
  have upd: "update_user_roles (authenticated 3) (\<lambda>r. ur_user_id r = 1)
               (\<lambda>r. r\<lparr>ur_role := store_owner\<rparr>) ?d1 =
             Inl (unique_violation ''user_roles_user_id_role_key'')"
    by (simp add: update_user_roles_def Let_def user_roles_all_policy_def adm1
        user_roles_violation_def user_roles_user_id_role_key_def tabs)
  have upd0: "update_user_roles (authenticated 3) (\<lambda>r. ur_user_id r = 1)
               (\<lambda>r. r\<lparr>ur_role := store_owner\<rparr>) ?e1 = Inr ?e2"
    by (simp add: update_user_roles_def Let_def user_roles_all_policy_def adm01
        user_roles_violation_def user_roles_user_id_role_key_def tabs0 cafe_roles_def
        alice_def bob_def carol_def)
  note T = createStore_role_update_unchecked
             [of "authenticated 3" cafe_form example_db_two_roles ?P store_env ?d1,
              unfolded pid row, OF ow ins]
  note c = conjunct1 [OF conjunct2 [OF conjunct2 [OF T], rule_format, OF upd]]
  note T0 = createStore_role_update_unchecked
             [of "authenticated 3" cafe_form example_db ?P store_env ?e1,
              unfolded pid row, OF ow0 ins0]
  note S0 = conjunct1 [OF conjunct2 [OF T0], rule_format, OF upd0]
  note c0 = conjunct1 [OF S0]
  have in0: "1 \<in> set (map ur_user_id (user_roles example_db))"
    by (simp add: tabs0)
  note hr0 = mp [OF conjunct2 [OF conjunct2 [OF conjunct2 [OF conjunct2 [OF S0]]]] in0]
  have nr0: "\<not> has_role example_db (Some 1) store_owner"
    by (simp add: has_role_def tabs0)
  have own: "s_owner_id cafe = 1"
    by (simp add: cafe_def)
  have nr: "\<not> has_role ?d1 (Some 1) store_owner"
    by (simp add: has_role_def tabs)
  show ?thesis
    by (intro conjI ow0 ins0 upd0 c0 hr0 nr0 ow ins upd c own nr)
qed

end
